theory Spec2Isabelle
  imports Complex_Main "HOL-Library.Log_Nat"
begin

section \<open>JavaScript values\<close>

text \<open>
  The service in \<^verbatim>\<open>gep.service.ts\<close> handles payloads typed \<^verbatim>\<open>any\<close>: nothing is
  checked at run time, so the model works on untyped JavaScript values. A number is a
  rational (the value of a double) or one of the three non-finite values; the sign of
  zero is not modelled. An object is the list of its own properties in the order in
  which the engine enumerates them, which is the order \<^verbatim>\<open>JSON.stringify\<close> prints them in:
  the integer-like keys first, in ascending order, then the other keys in insertion
  order. Every object the service itself builds is a literal with keys that are not
  integer-like, so for it this is the order of the literal. Strings are lists of 8-bit
  characters. No value is a function: payloads are data.
\<close>

datatype jsnum = Fin rat | NaN | PosInf | NegInf

datatype jsval =
    JUndefined
  | JNull
  | JBool bool
  | JNum jsnum
  | JStr string
  | JArr "jsval list"
  | JObj "(string \<times> jsval) list"

text \<open>Truthiness, as tested by \<^verbatim>\<open>if (!info)\<close> and \<^verbatim>\<open>.filter(item => item)\<close>.\<close>

fun truthy :: "jsval \<Rightarrow> bool" where
  "truthy JUndefined = False"
| "truthy JNull = False"
| "truthy (JBool b) = b"
| "truthy (JNum (Fin q)) = (q \<noteq> 0)"
| "truthy (JNum NaN) = False"
| "truthy (JNum PosInf) = True"
| "truthy (JNum NegInf) = True"
| "truthy (JStr s) = (s \<noteq> [])"
| "truthy (JArr xs) = True"
| "truthy (JObj kvs) = True"

text \<open>The nullish coalescing operator \<^verbatim>\<open>a ?? b\<close>.\<close>

definition nullish :: "jsval \<Rightarrow> bool" where
  "nullish v = (v = JUndefined \<or> v = JNull)"

definition orElse :: "jsval \<Rightarrow> jsval \<Rightarrow> jsval" where
  "orElse a b = (if nullish a then b else a)"

text \<open>
  Optional member access \<^verbatim>\<open>v?.k\<close>: \<^verbatim>\<open>undefined\<close> on \<^verbatim>\<open>null\<close> and \<^verbatim>\<open>undefined\<close>, the own
  property on an object, \<^verbatim>\<open>undefined\<close> when it is missing. On a primitive or an array the
  lookup goes to the prototype, which has none of the keys this service reads, so the
  result is \<^verbatim>\<open>undefined\<close> there too.
\<close>

fun getp :: "jsval \<Rightarrow> string \<Rightarrow> jsval" where
  "getp (JObj kvs) k = (case map_of kvs k of Some v \<Rightarrow> v | None \<Rightarrow> JUndefined)"
| "getp v k = JUndefined"

fun isArray :: "jsval \<Rightarrow> bool" where
  "isArray (JArr xs) = True"
| "isArray v = False"

fun elements :: "jsval \<Rightarrow> jsval list" where
  "elements (JArr xs) = xs"
| "elements v = []"

text \<open>
  Exceptions are values: a computation that can throw returns \<open>Inl\<close> of the thrown value
  or \<open>Inr\<close> of its result. \<^verbatim>\<open>new Error(m)\<close> is an object whose \<^verbatim>\<open>message\<close> is \<^verbatim>\<open>m\<close>; the
  two \<^verbatim>\<open>TypeError\<close>s the engine throws in this service carry the messages of V8, the
  engine of the host runtime.
\<close>

definition Error :: "string \<Rightarrow> jsval" where
  "Error m = JObj [(''message'', JStr m)]"

definition cannot_convert :: jsval where
  "cannot_convert = Error ''Cannot convert object to primitive value''"

definition cannot_read :: "jsval \<Rightarrow> string \<Rightarrow> jsval" where
  "cannot_read v k =
     Error (''Cannot read properties of '' @ (if v = JNull then ''null'' else ''undefined'') @
            '' (reading '' @ [CHR 0x27] @ k @ [CHR 0x27] @ '')'')"

definition then_do :: "jsval + 'a \<Rightarrow> ('a \<Rightarrow> jsval + 'b) \<Rightarrow> jsval + 'b" where
  "then_do r f = (case r of Inl e \<Rightarrow> Inl e | Inr x \<Rightarrow> f x)"

section \<open>Numeric conversion: \<^verbatim>\<open>Number(value)\<close>\<close>

text \<open>
  The Number value of a rational: the nearest double, a tie going to the even
  significand, with 53 bits of significand down to the exponent \<open>-1022\<close> and the fixed
  step \<open>2 powi -1074\<close> below it; a result of \<open>2 ^ 1024\<close> or more is infinite.
\<close>

definition round_half_even :: "rat \<Rightarrow> int" where
  "round_half_even x =
     (let f = \<lfloor>x\<rfloor>; d = x - of_int f
      in if d < 1 / 2 then f
         else if 1 / 2 < d then f + 1
         else if even f then f else f + 1)"

definition ilog2 :: "rat \<Rightarrow> int" where
  \<comment> \<open>the floor of the binary logarithm of a positive rational\<close>
  "ilog2 a = (if 1 \<le> a then bitlen \<lfloor>a\<rfloor> - 1 else - bitlen (\<lceil>1 / a\<rceil> - 1))"

definition to_double :: "rat \<Rightarrow> jsnum" where
  "to_double q =
     (if q = 0 then Fin 0
      else
        (let a = \<bar>q\<bar>;
             e = max (ilog2 a) (- 1022);
             ulp = 2 powi (e - 52);
             r = of_int (round_half_even (a / ulp)) * ulp
         in if 2 ^ 1024 \<le> r then (if 0 < q then PosInf else NegInf)
            else Fin (if 0 < q then r else - r)))"

text \<open>
  \<^verbatim>\<open>StringToNumber\<close> of ECMAScript: white space is trimmed, the empty string is 0, then
  the text must be a whole \<^verbatim>\<open>StrNumericLiteral\<close>: a signed decimal literal (with
  \<^verbatim>\<open>Infinity\<close>, a fraction and an exponent) or an unsigned binary, octal or hexadecimal
  integer. Anything else is \<^verbatim>\<open>NaN\<close>. The mathematical value of the literal is rounded
  to its Number value.
\<close>

definition is_ws :: "char \<Rightarrow> bool" where
  "is_ws c = (c \<in> set [CHR 0x09, CHR 0x0A, CHR 0x0B, CHR 0x0C, CHR 0x0D, CHR 0x20, CHR 0xA0])"

definition trim :: "string \<Rightarrow> string" where
  "trim s = rev (dropWhile is_ws (rev (dropWhile is_ws s)))"

definition digit_of :: "nat \<Rightarrow> char \<Rightarrow> nat option" where
  "digit_of base c =
     (let n = (of_char c :: nat);
          d = (if 48 \<le> n \<and> n \<le> 57 then n - 48
               else if 97 \<le> n \<and> n \<le> 102 then n - 87
               else if 65 \<le> n \<and> n \<le> 70 then n - 55
               else 16)
      in if d < base then Some d else None)"

definition is_digit :: "nat \<Rightarrow> char \<Rightarrow> bool" where
  "is_digit base c = (digit_of base c \<noteq> None)"

definition digits_val :: "nat \<Rightarrow> string \<Rightarrow> nat" where
  "digits_val base cs = foldl (\<lambda>a c. base * a + the (digit_of base c)) 0 cs"

definition all_digits :: "nat \<Rightarrow> string \<Rightarrow> bool" where
  "all_digits base cs = (cs \<noteq> [] \<and> list_all (is_digit base) cs)"

definition scale10 :: "nat \<Rightarrow> int \<Rightarrow> rat" where
  "scale10 m e = (if 0 \<le> e then of_nat m * 10 ^ nat e else of_nat m / 10 ^ nat (- e))"

fun parse_exponent :: "string \<Rightarrow> int option" where
  "parse_exponent [] = Some 0"
| "parse_exponent (c # cs) =
     (if c = CHR ''e'' \<or> c = CHR ''E'' then
        (case cs of
           [] \<Rightarrow> None
         | d # ds \<Rightarrow>
             if d = CHR ''+'' then
               (if all_digits 10 ds then Some (int (digits_val 10 ds)) else None)
             else if d = CHR ''-'' then
               (if all_digits 10 ds then Some (- int (digits_val 10 ds)) else None)
             else
               (if all_digits 10 cs then Some (int (digits_val 10 cs)) else None))
      else None)"

definition parse_unsigned :: "string \<Rightarrow> rat option" where
  "parse_unsigned s =
     (let ip = takeWhile (is_digit 10) s; r = dropWhile (is_digit 10) s in
      case r of
        [] \<Rightarrow> (if ip = [] then None else Some (of_nat (digits_val 10 ip)))
      | c # r' \<Rightarrow>
          if c = CHR ''.'' then
            (let fp = takeWhile (is_digit 10) r'; r'' = dropWhile (is_digit 10) r' in
             if ip = [] \<and> fp = [] then None
             else (case parse_exponent r'' of
                     None \<Rightarrow> None
                   | Some e \<Rightarrow> Some (scale10 (digits_val 10 (ip @ fp)) (e - int (length fp)))))
          else if ip = [] then None
          else (case parse_exponent r of
                  None \<Rightarrow> None
                | Some e \<Rightarrow> Some (scale10 (digits_val 10 ip) e)))"

definition parse_decimal :: "string \<Rightarrow> jsnum" where
  "parse_decimal s =
     (case s of
        [] \<Rightarrow> NaN
      | c # cs \<Rightarrow>
          if c = CHR ''-'' then
            (if cs = ''Infinity'' then NegInf
             else (case parse_unsigned cs of None \<Rightarrow> NaN | Some q \<Rightarrow> to_double (- q)))
          else
            (let u = (if c = CHR ''+'' then cs else s) in
             if u = ''Infinity'' then PosInf
             else (case parse_unsigned u of None \<Rightarrow> NaN | Some q \<Rightarrow> to_double q)))"

definition radix_prefix :: "string \<Rightarrow> (nat \<times> string) option" where
  "radix_prefix s =
     (case s of
        z # x # ds \<Rightarrow>
          if z \<noteq> CHR ''0'' then None
          else if x = CHR ''x'' \<or> x = CHR ''X'' then Some (16, ds)
          else if x = CHR ''o'' \<or> x = CHR ''O'' then Some (8, ds)
          else if x = CHR ''b'' \<or> x = CHR ''B'' then Some (2, ds)
          else None
      | _ \<Rightarrow> None)"

definition StringToNumber :: "string \<Rightarrow> jsnum" where
  "StringToNumber s =
     (let t = trim s in
      if t = [] then Fin 0
      else (case radix_prefix t of
              Some (base, ds) \<Rightarrow>
                if all_digits base ds then to_double (of_nat (digits_val base ds)) else NaN
            | None \<Rightarrow> parse_decimal t))"

text \<open>
  \<^verbatim>\<open>ToNumber\<close> turns an object into a primitive first, by its \<^verbatim>\<open>valueOf\<close> and then its
  \<^verbatim>\<open>toString\<close>. The inherited \<^verbatim>\<open>valueOf\<close> returns the object itself, so \<^verbatim>\<open>toString\<close>
  decides. A plain object inherits one that prints \<^verbatim>\<open>[object Object]\<close>; an own property
  \<^verbatim>\<open>toString\<close> hides it, and as no value is a function the conversion then throws a
  \<^verbatim>\<open>TypeError\<close>. An array prints as its elements joined by commas, \<^verbatim>\<open>null\<close> and
  \<^verbatim>\<open>undefined\<close> printing as nothing, and throws when printing an element throws.
\<close>

fun print_throws :: "jsval \<Rightarrow> bool"
  and prints_throw :: "jsval list \<Rightarrow> bool" where
  "print_throws (JObj kvs) = (''toString'' \<in> set (map fst kvs))"
| "print_throws (JArr xs) = prints_throw xs"
| "print_throws JUndefined = False"
| "print_throws JNull = False"
| "print_throws (JBool b) = False"
| "print_throws (JNum n) = False"
| "print_throws (JStr s) = False"
| "prints_throw [] = False"
| "prints_throw (x # xs) = (print_throws x \<or> prints_throw xs)"

text \<open>
  The number of a value whose conversion to a primitive completes. A plain object is
  not numeric. The empty array is 0, an array of one element converts as the text of
  that element (a number prints as a text that reads back as the same number), and a
  longer array has a comma in its text and is \<^verbatim>\<open>NaN\<close>.
\<close>

fun primitive_number :: "jsval \<Rightarrow> jsnum" where
  "primitive_number JUndefined = NaN"
| "primitive_number JNull = Fin 0"
| "primitive_number (JBool b) = (if b then Fin 1 else Fin 0)"
| "primitive_number (JNum n) = n"
| "primitive_number (JStr s) = StringToNumber s"
| "primitive_number (JObj kvs) = NaN"
| "primitive_number (JArr []) = Fin 0"
| "primitive_number (JArr [JUndefined]) = Fin 0"
| "primitive_number (JArr [JNull]) = Fin 0"
| "primitive_number (JArr [JBool b]) = NaN"
| "primitive_number (JArr [JNum n]) = n"
| "primitive_number (JArr [JStr s]) = StringToNumber s"
| "primitive_number (JArr [JObj kvs]) = NaN"
| "primitive_number (JArr [JArr xs]) = primitive_number (JArr xs)"
| "primitive_number (JArr (x # y # zs)) = NaN"

definition ToNumber :: "jsval \<Rightarrow> jsval + jsnum" where
  "ToNumber v = (if print_throws v then Inl cannot_convert else Inr (primitive_number v))"

section \<open>The stat normalizer\<close>

text \<open>
  \<^verbatim>\<open>Math.round\<close> is the floor of the argument plus one half: a tie goes up.
\<close>

definition Math_round :: "rat \<Rightarrow> int" where
  "Math_round q = \<lfloor>q + 1 / 2\<rfloor>"

definition normalizeStat :: "jsval \<Rightarrow> jsval + jsval" where
  "normalizeStat v =
     (case ToNumber v of
        Inl e \<Rightarrow> Inl e
      | Inr (Fin q) \<Rightarrow> Inr (JNum (Fin (of_int (Math_round q))))
      | Inr _ \<Rightarrow> Inr JNull)"

definition mapItem :: "jsval \<Rightarrow> jsval" where
  "mapItem item = JObj
     [(''name'', orElse (getp item ''displayName'') (JStr ''Unknown Item'')),
      (''rawDisplay'', orElse (getp item ''displayName'') (JStr '''')),
      (''itemId'', orElse (getp item ''itemID'') (JNum (Fin 0))),
      (''count'', orElse (getp item ''count'') (JNum (Fin 1)))]"

definition rawItems :: "jsval \<Rightarrow> jsval list" where
  "rawItems player = (if isArray (getp player ''items'') then elements (getp player ''items'') else [])"

definition statsSource :: "jsval \<Rightarrow> jsval" where
  "statsSource player =
     orElse (orElse (orElse (orElse (getp player ''championStats'')
                                    (getp player ''champion_stats''))
                            (getp player ''stats''))
                    (getp player ''rawStats''))
            (JObj [])"

text \<open>
  \<^verbatim>\<open>mapLeaguePlayer\<close> evaluates the properties of its object literal in order; the first
  \<^verbatim>\<open>normalizeStat\<close> that throws ends it.
\<close>

definition mapLeaguePlayer :: "jsval \<Rightarrow> jsval + jsval" where
  "mapLeaguePlayer player =
     then_do (normalizeStat (orElse (getp player ''level'') (getp (statsSource player) ''level'')))
       (\<lambda>level.
     then_do (normalizeStat (orElse (getp (statsSource player) ''maxHealth'')
                                    (getp (statsSource player) ''hp'')))
       (\<lambda>maxHealth.
     then_do (normalizeStat (orElse (getp (statsSource player) ''attackDamage'')
                                    (getp (statsSource player) ''ad'')))
       (\<lambda>attackDamage.
     then_do (normalizeStat (orElse (getp (statsSource player) ''abilityPower'')
                                    (getp (statsSource player) ''ap'')))
       (\<lambda>abilityPower.
     then_do (normalizeStat (getp (statsSource player) ''armor''))
       (\<lambda>armor.
     then_do (normalizeStat (orElse (orElse (getp (statsSource player) ''magicResist'')
                                            (getp (statsSource player) ''magicResistance''))
                                    (getp (statsSource player) ''mr'')))
       (\<lambda>magicResist.
     Inr (JObj
       [(''name'', orElse (getp player ''summonerName'') (JStr ''Unknown'')),
        (''champion'', orElse (getp player ''championName'') (JStr '''')),
        (''team'', orElse (getp player ''team'') (JStr ''ORDER'')),
        (''level'', level),
        (''stats'', JObj
           [(''maxHealth'', maxHealth),
            (''attackDamage'', attackDamage),
            (''abilityPower'', abilityPower),
            (''armor'', armor),
            (''magicResist'', magicResist)]),
        (''items'', JArr (map mapItem (filter truthy (rawItems player))))])))))))"

text \<open>\<^verbatim>\<open>players.map((player) => this.mapLeaguePlayer(player))\<close>, from the first player on.\<close>

fun mapPlayers :: "jsval list \<Rightarrow> jsval + jsval list" where
  "mapPlayers [] = Inr []"
| "mapPlayers (player # players) =
     then_do (mapLeaguePlayer player)
       (\<lambda>p. then_do (mapPlayers players) (\<lambda>ps. Inr (p # ps)))"

definition LeagueScoreboard :: "jsval list \<Rightarrow> jsval + jsval" where
  "LeagueScoreboard players =
     then_do (mapPlayers players) (\<lambda>ps. Inr (JObj [(''players'', JArr ps)]))"

section \<open>The scoreboard differ: \<^verbatim>\<open>JSON.stringify\<close>\<close>

text \<open>
  Both update paths decide whether the scoreboard changed with
  \<^verbatim>\<open>JSON.stringify(scoreboard) !== JSON.stringify(this.latestScoreboard)\<close>.
  The text \<^verbatim>\<open>JSON.stringify\<close> returns is modelled as its sequence of lexical tokens:
  in such a text two literals are always separated by a punctuator, so two texts are
  equal exactly when their token sequences are. \<^verbatim>\<open>JSON.stringify\<close> prints a non-finite
  number as \<^verbatim>\<open>null\<close>, prints \<^verbatim>\<open>undefined\<close> inside an array as \<^verbatim>\<open>null\<close>, leaves out a
  property whose value is \<^verbatim>\<open>undefined\<close>, prints the properties of an object in their
  order, and returns \<^verbatim>\<open>undefined\<close> instead of a text for \<^verbatim>\<open>undefined\<close> itself.
\<close>

datatype token =
    LBrace | RBrace | LBracket | RBracket | Comma | Colon
  | TNull | TTrue | TFalse | TNumber rat | TString string

fun commas :: "token list list \<Rightarrow> token list" where
  "commas [] = []"
| "commas [t] = t"
| "commas (t # u # ts) = t @ Comma # commas (u # ts)"

fun tokens :: "jsval \<Rightarrow> token list"
  and element_tokens :: "jsval list \<Rightarrow> token list list"
  and property_tokens :: "(string \<times> jsval) list \<Rightarrow> token list list" where
  "tokens JUndefined = [TNull]"
| "tokens JNull = [TNull]"
| "tokens (JBool b) = [if b then TTrue else TFalse]"
| "tokens (JNum (Fin q)) = [TNumber q]"
| "tokens (JNum NaN) = [TNull]"
| "tokens (JNum PosInf) = [TNull]"
| "tokens (JNum NegInf) = [TNull]"
| "tokens (JStr s) = [TString s]"
| "tokens (JArr xs) = LBracket # commas (element_tokens xs) @ [RBracket]"
| "tokens (JObj kvs) = LBrace # commas (property_tokens kvs) @ [RBrace]"
| "element_tokens [] = []"
| "element_tokens (x # xs) = tokens x # element_tokens xs"
| "property_tokens [] = []"
| "property_tokens ((k, v) # kvs) =
     (if v = JUndefined then property_tokens kvs
      else (TString k # Colon # tokens v) # property_tokens kvs)"

definition JSON_stringify :: "jsval \<Rightarrow> token list option" where
  "JSON_stringify v = (if v = JUndefined then None else Some (tokens v))"

definition changed :: "jsval \<Rightarrow> jsval \<Rightarrow> bool" where
  "changed scoreboard latest = (JSON_stringify scoreboard \<noteq> JSON_stringify latest)"

text \<open>
  The values \<^verbatim>\<open>JSON.parse\<close> produces: no \<^verbatim>\<open>undefined\<close> and no non-finite number anywhere.
\<close>

fun json_value :: "jsval \<Rightarrow> bool"
  and json_values :: "jsval list \<Rightarrow> bool"
  and json_properties :: "(string \<times> jsval) list \<Rightarrow> bool" where
  "json_value JUndefined = False"
| "json_value JNull = True"
| "json_value (JBool b) = True"
| "json_value (JNum (Fin q)) = True"
| "json_value (JNum NaN) = False"
| "json_value (JNum PosInf) = False"
| "json_value (JNum NegInf) = False"
| "json_value (JStr s) = True"
| "json_value (JArr xs) = json_values xs"
| "json_value (JObj kvs) = json_properties kvs"
| "json_values [] = True"
| "json_values (x # xs) = (json_value x \<and> json_values xs)"
| "json_properties [] = True"
| "json_properties ((k, v) # kvs) = (json_value v \<and> json_properties kvs)"

section \<open>The service state and the live-data poller\<close>

text \<open>
  The fields of \<^verbatim>\<open>GameEventsService\<close>, and what the service does to its environment:
  the events it emits (\<^verbatim>\<open>this.emit(name, ...args)\<close>, in order), the interval timers that
  are active in the runtime (\<^verbatim>\<open>setInterval\<close> adds a fresh handle, \<^verbatim>\<open>clearInterval\<close>
  removes one), the number of HTTPS requests issued to the live client and how many of
  them have settled, and the calls made to the host API.
\<close>

definition LeagueofLegends :: int where
  \<comment> \<open>\<^verbatim>\<open>kGameIds.LeagueofLegends\<close> of the host's game list\<close>
  "LeagueofLegends = 5426"

type_synonym event = "string \<times> jsval list"

datatype host_call = Enable int | SetRequiredFeatures int "string list"

record gep_state =
  activeGame :: int
  gepGamesId :: "int list"
  latestScoreboard :: jsval
  leaguePollingTimer :: "nat option"
  lastScoreboardErrorTs :: int
  emitted :: "event list"
  intervals :: "nat list"
  next_timer :: nat
  requests :: nat
  settled :: nat
  host_calls :: "host_call list"

definition initial :: gep_state where
  "initial = \<lparr>activeGame = 0, gepGamesId = [], latestScoreboard = JNull,
     leaguePollingTimer = None, lastScoreboardErrorTs = 0, emitted = [], intervals = [],
     next_timer = 0, requests = 0, settled = 0, host_calls = []\<rparr>"

definition emit :: "string \<Rightarrow> jsval list \<Rightarrow> gep_state \<Rightarrow> gep_state" where
  "emit name args st = st\<lparr>emitted := emitted st @ [(name, args)]\<rparr>"

definition gameIdVal :: "int \<Rightarrow> jsval" where
  "gameIdVal g = JNum (Fin (of_int g))"

definition registerGames :: "int list \<Rightarrow> gep_state \<Rightarrow> gep_state" where
  "registerGames ids st =
     (emit ''log'' [JStr ''register to game events for '', JArr (map gameIdVal ids)] st)
       \<lparr>gepGamesId := ids\<rparr>"

definition getRequiredFeatures :: "int \<Rightarrow> string list option" where
  "getRequiredFeatures gameId =
     (if gameId = LeagueofLegends then Some [''live_client_data''] else None)"

text \<open>
  The request to \<^verbatim>\<open>https://127.0.0.1:2999/liveclientdata/playerlist\<close> settles later, in
  a callback of its own: the promise of \<^verbatim>\<open>fetchLeagueLiveClientPlayers\<close> resolves with
  the parsed body or rejects with an error.
\<close>

datatype fetch_outcome = Resolved jsval | Rejected jsval

fun show_nat :: "nat \<Rightarrow> string" where
  "show_nat n =
     (if n < 10 then [char_of (48 + n)]
      else show_nat (n div 10) @ [char_of (48 + n mod 10)])"

declare show_nat.simps [simp del]

text \<open>
  \<^verbatim>\<open>handleLiveClientResponse\<close>, at the end of the response: the status code (absent or a
  number) and what \<^verbatim>\<open>JSON.parse\<close> does on the body (it throws an error or returns a value).
\<close>

definition handleLiveClientResponse :: "nat option \<Rightarrow> jsval + jsval \<Rightarrow> fetch_outcome" where
  "handleLiveClientResponse statusCode parsed =
     (case statusCode of
        Some code \<Rightarrow>
          if code \<noteq> 0 \<and> 400 \<le> code then Rejected (Error (''live client http '' @ show_nat code))
          else (case parsed of Inl error \<Rightarrow> Rejected error | Inr payload \<Rightarrow> Resolved payload)
      | None \<Rightarrow> (case parsed of Inl error \<Rightarrow> Rejected error | Inr payload \<Rightarrow> Resolved payload))"

text \<open>
  \<^verbatim>\<open>pollLeague\<close> is an async function. Up to its \<^verbatim>\<open>await\<close> it runs inside the caller:
  the guard on the active game, then the request is issued.
\<close>

definition pollLeague :: "gep_state \<Rightarrow> gep_state" where
  "pollLeague st =
     (if activeGame st \<noteq> LeagueofLegends then st
      else st\<lparr>requests := requests st + 1\<rparr>)"

text \<open>
  The \<^verbatim>\<open>catch\<close> block. \<^verbatim>\<open>Date.now()\<close> is read twice in it, within one callback; both
  reads are the clock value \<open>now\<close>, in milliseconds since the epoch.
\<close>

definition pollLeague_catch :: "jsval \<Rightarrow> int \<Rightarrow> gep_state \<Rightarrow> gep_state" where
  "pollLeague_catch error now st =
     (let st1 = emit ''log'' [JStr ''league-live-client-error'', orElse (getp error ''message'') error] st
      in if now - lastScoreboardErrorTs st1 > 5000 then
           emit ''scoreboard-error''
             [JObj [(''gameId'', gameIdVal LeagueofLegends),
                    (''error'', orElse (orElse (getp error ''message'') error)
                                       (JStr ''league-live-client-error''))]]
             (st1\<lparr>lastScoreboardErrorTs := now\<rparr>)
         else st1)"

text \<open>
  The rest of \<^verbatim>\<open>pollLeague\<close>, run when the request has settled. Whatever is thrown
  inside the \<^verbatim>\<open>try\<close> block, by the rejected request, by the test of the response or by
  the normalizer, is handled by the \<^verbatim>\<open>catch\<close> block.
\<close>

definition pollLeague_settled :: "fetch_outcome \<Rightarrow> int \<Rightarrow> gep_state \<Rightarrow> gep_state" where
  "pollLeague_settled outcome now st =
     (case outcome of
        Rejected error \<Rightarrow> pollLeague_catch error now st
      | Resolved players \<Rightarrow>
          if \<not> isArray players then
            pollLeague_catch (Error ''Invalid live client response'') now st
          else
            (case LeagueScoreboard (elements players) of
               Inl error \<Rightarrow> pollLeague_catch error now st
             | Inr scoreboard \<Rightarrow>
                 (let is_changed = changed scoreboard (latestScoreboard st);
                      st1 = st\<lparr>latestScoreboard := scoreboard\<rparr>;
                      st2 = (if is_changed then emit ''scoreboard-update'' [scoreboard] st1 else st1)
                  in st2\<lparr>lastScoreboardErrorTs := 0\<rparr>)))"

definition startLeaguePolling :: "bool \<Rightarrow> gep_state \<Rightarrow> gep_state" where
  "startLeaguePolling force st =
     (if leaguePollingTimer st \<noteq> None then st
      else if \<not> force \<and> activeGame st \<noteq> LeagueofLegends then st
      else (let st1 = pollLeague st; h = next_timer st1
            in st1\<lparr>leaguePollingTimer := Some h,
                    intervals := intervals st1 @ [h],
                    next_timer := h + 1\<rparr>))"

definition stopLeaguePolling :: "gep_state \<Rightarrow> gep_state" where
  "stopLeaguePolling st =
     (case leaguePollingTimer st of
        None \<Rightarrow> st
      | Some h \<Rightarrow> st\<lparr>intervals := removeAll h (intervals st), leaguePollingTimer := None\<rparr>)"

section \<open>The event handlers\<close>

text \<open>
  A handler has no \<^verbatim>\<open>try\<close> block of its own. It returns, or an exception leaves it:
  then the fields of the service keep the values they had when it was thrown.
\<close>

datatype completion = Returned gep_state | Threw jsval gep_state

fun state_of :: "completion \<Rightarrow> gep_state" where
  "state_of (Returned st) = st"
| "state_of (Threw error st) = st"

definition handleLeagueInfoUpdate :: "jsval \<Rightarrow> gep_state \<Rightarrow> completion" where
  "handleLeagueInfoUpdate info st =
     (if \<not> truthy info then Returned st
      else
        (let st1 = startLeaguePolling False st;
             liveClientData = orElse (getp info ''live_client_data'')
                                     (getp (getp info ''info'') ''live_client_data'');
             allPlayers = getp liveClientData ''allPlayers''
         in if \<not> isArray allPlayers then Returned st1
            else
              (case LeagueScoreboard (elements allPlayers) of
                 Inl error \<Rightarrow> Threw error st1
               | Inr scoreboard \<Rightarrow>
                   (let is_changed = changed scoreboard (latestScoreboard st1);
                        st2 = st1\<lparr>latestScoreboard := scoreboard\<rparr>
                    in Returned (if is_changed then emit ''scoreboard-update'' [scoreboard] st2
                                 else st2)))))"

text \<open>
  The handlers registered in \<^verbatim>\<open>onGameEventsPackageReady\<close>. The calls \<^verbatim>\<open>e.enable()\<close> and
  \<^verbatim>\<open>setRequiredFeatures\<close> are recorded in \<open>host_calls\<close>. A rejection of
  \<^verbatim>\<open>setRequiredFeatures\<close> is only logged, in a later callback, and \<^verbatim>\<open>console.log\<close> is
  not an emitted event: neither is part of the model. The skip branch of
  \<^verbatim>\<open>game-detected\<close> reads \<^verbatim>\<open>gameInfo.pid\<close> without optional chaining, which throws on
  \<^verbatim>\<open>null\<close> and \<^verbatim>\<open>undefined\<close> before anything is emitted.
\<close>

definition on_game_detected :: "int \<Rightarrow> jsval \<Rightarrow> jsval \<Rightarrow> gep_state \<Rightarrow> completion" where
  "on_game_detected gameId name gameInfo st =
     (if gameId \<notin> set (gepGamesId st) then
        (if nullish gameInfo then Threw (cannot_read gameInfo ''pid'') st
         else Returned (emit ''log'' [JStr ''gep: skip game-detected'', gameIdVal gameId, name,
                                      getp gameInfo ''pid''] st))
      else
        (let st1 = emit ''log'' [JStr ''gep: register game-detected'', gameIdVal gameId, name, gameInfo] st;
             st2 = st1\<lparr>host_calls := host_calls st1 @ [Enable gameId]\<rparr>;
             st3 = st2\<lparr>activeGame := gameId\<rparr>;
             st4 = (if gameId = LeagueofLegends then startLeaguePolling False st3 else st3)
         in case getRequiredFeatures gameId of
              None \<Rightarrow> Returned st4
            | Some features \<Rightarrow>
                Returned (st4\<lparr>host_calls := host_calls st4 @ [SetRequiredFeatures gameId features]\<rparr>)))"

definition on_game_exit :: "int \<Rightarrow> gep_state \<Rightarrow> gep_state" where
  "on_game_exit gameId st =
     (let st1 = (if activeGame st = gameId then st\<lparr>activeGame := 0\<rparr> else st)
      in if gameId = LeagueofLegends then (stopLeaguePolling st1)\<lparr>latestScoreboard := JNull\<rparr>
         else st1)"

definition on_elevated_privileges_required :: "int \<Rightarrow> jsval list \<Rightarrow> gep_state \<Rightarrow> gep_state" where
  "on_elevated_privileges_required gameId args st =
     emit ''log'' (JStr ''elevated-privileges-required'' # gameIdVal gameId # args) st"

definition on_new_info_update :: "int \<Rightarrow> jsval list \<Rightarrow> gep_state \<Rightarrow> completion" where
  "on_new_info_update gameId args st =
     (let st1 = emit ''log'' (JStr ''info-update'' # gameIdVal gameId # args) st
      in if gameId = LeagueofLegends then
           handleLeagueInfoUpdate (case args of [] \<Rightarrow> JUndefined | a # _ \<Rightarrow> a) st1
         else Returned st1)"

definition on_new_game_event :: "int \<Rightarrow> jsval list \<Rightarrow> gep_state \<Rightarrow> gep_state" where
  "on_new_game_event gameId args st =
     emit ''log'' (JStr ''new-event'' # gameIdVal gameId # args) st"

fun has_message :: "jsval \<Rightarrow> bool" where
  \<comment> \<open>\<^verbatim>\<open>typeof error === 'object' && error && 'message' in error\<close>\<close>
  "has_message (JObj kvs) = (''message'' \<in> set (map fst kvs))"
| "has_message v = False"

definition on_error :: "int \<Rightarrow> jsval \<Rightarrow> jsval list \<Rightarrow> gep_state \<Rightarrow> gep_state" where
  "on_error gameId error args st =
     (let st1 = emit ''log'' (JStr ''gep-error'' # gameIdVal gameId # error # args) st;
          st2 = (if gameId = LeagueofLegends then startLeaguePolling True st1 else st1);
          normalizedError = (if has_message error then getp error ''message''
                             else if truthy error then error else JStr ''unknown-error'');
          st3 = (if gameId = LeagueofLegends then
                   emit ''scoreboard-error''
                     [JObj [(''gameId'', gameIdVal gameId), (''error'', normalizedError),
                            (''details'', JArr args)]] st2
                 else st2)
      in if activeGame st3 = gameId then st3\<lparr>activeGame := 0\<rparr> else st3)"

text \<open>
  One callback of the event loop: a host event, an interval timer firing (it runs
  \<^verbatim>\<open>pollLeague\<close> if the timer is still active), or a pending request settling at clock
  value \<open>now\<close>.
\<close>

datatype input =
    GameDetected int jsval jsval
  | GameExit int
  | ElevatedPrivilegesRequired int "jsval list"
  | NewInfoUpdate int "jsval list"
  | NewGameEvent int "jsval list"
  | GepError int jsval "jsval list"
  | IntervalFired nat
  | FetchSettled fetch_outcome int

fun step :: "gep_state \<Rightarrow> input \<Rightarrow> gep_state" where
  "step st (GameDetected gameId name gameInfo) = state_of (on_game_detected gameId name gameInfo st)"
| "step st (GameExit gameId) = on_game_exit gameId st"
| "step st (ElevatedPrivilegesRequired gameId args) = on_elevated_privileges_required gameId args st"
| "step st (NewInfoUpdate gameId args) = state_of (on_new_info_update gameId args st)"
| "step st (NewGameEvent gameId args) = on_new_game_event gameId args st"
| "step st (GepError gameId error args) = on_error gameId error args st"
| "step st (IntervalFired h) = (if h \<in> set (intervals st) then pollLeague st else st)"
| "step st (FetchSettled outcome now) =
     (if settled st < requests st then (pollLeague_settled outcome now st)\<lparr>settled := settled st + 1\<rparr>
      else st)"

definition run :: "gep_state \<Rightarrow> input list \<Rightarrow> gep_state" where
  "run st ins = foldl step st ins"

text \<open>Vocabulary of the statements below.\<close>

definition faker :: jsval where
  "faker = JObj
     [(''summonerName'', JStr ''Faker''), (''championName'', JStr ''Ahri''),
      (''team'', JStr ''ORDER''),
      (''championStats'', JObj [(''level'', JNum (Fin (38 / 5))), (''hp'', JStr ''1200''),
                                (''armor'', JNum (Fin 30))]),
      (''items'', JArr [JObj [(''displayName'', JStr ''Boots''), (''itemID'', JNum (Fin 1001)),
                              (''count'', JNum (Fin 2))]])]"

definition canonical_faker :: "(string \<times> jsval) list" where
  \<comment> \<open>the properties of the canonical record of \<open>faker\<close>, in the order the normalizer writes them\<close>
  "canonical_faker =
     [(''name'', JStr ''Faker''), (''champion'', JStr ''Ahri''), (''team'', JStr ''ORDER''),
      (''level'', JNum (Fin 8)),
      (''stats'', JObj [(''maxHealth'', JNum (Fin 1200)), (''attackDamage'', JNull),
                        (''abilityPower'', JNull), (''armor'', JNum (Fin 30)),
                        (''magicResist'', JNull)]),
      (''items'', JArr [JObj [(''name'', JStr ''Boots''), (''rawDisplay'', JStr ''Boots''),
                              (''itemId'', JNum (Fin 1001)), (''count'', JNum (Fin 2))]])]"

definition with_items :: "jsval list \<Rightarrow> jsval" where
  \<comment> \<open>a raw player with the given raw items\<close>
  "with_items its = JObj [(''summonerName'', JStr ''Faker''), (''items'', JArr its)]"

definition boots :: jsval where
  "boots = JObj [(''displayName'', JStr ''Boots''), (''itemID'', JNum (Fin 1001))]"

definition sword :: jsval where
  "sword = JObj [(''displayName'', JStr ''Long Sword''), (''itemID'', JNum (Fin 1036))]"

definition count_ok :: "jsval \<Rightarrow> bool" where
  \<comment> \<open>an integer that is at least 1\<close>
  "count_ok v = (case v of JNum (Fin q) \<Rightarrow> of_int \<lfloor>q\<rfloor> = q \<and> 1 \<le> q | _ \<Rightarrow> False)"

definition is_failure :: "fetch_outcome \<Rightarrow> bool" where
  \<comment> \<open>the poll cycle fails: the request is rejected, the response is not an array, or the
      normalizer throws\<close>
  "is_failure outcome =
     (case outcome of
        Rejected error \<Rightarrow> True
      | Resolved v \<Rightarrow> \<not> isArray v \<or> isl (LeagueScoreboard (elements v)))"

definition thrown :: "fetch_outcome \<Rightarrow> jsval" where
  \<comment> \<open>the error the \<^verbatim>\<open>catch\<close> block of \<^verbatim>\<open>pollLeague\<close> receives on a failure\<close>
  "thrown outcome =
     (case outcome of
        Rejected error \<Rightarrow> error
      | Resolved v \<Rightarrow>
          if \<not> isArray v then Error ''Invalid live client response''
          else (case LeagueScoreboard (elements v) of Inl error \<Rightarrow> error | Inr sb \<Rightarrow> JUndefined))"

definition team_ab :: jsval where
  \<comment> \<open>a raw player as parsed from \<^verbatim>\<open>{"team":{"a":1,"b":2}}\<close>\<close>
  "team_ab = JObj [(''team'', JObj [(''a'', JNum (Fin 1)), (''b'', JNum (Fin 2))])]"

definition team_ba :: jsval where
  \<comment> \<open>a raw player as parsed from \<^verbatim>\<open>{"team":{"b":2,"a":1}}\<close>\<close>
  "team_ba = JObj [(''team'', JObj [(''b'', JNum (Fin 2)), (''a'', JNum (Fin 1))])]"

definition canonical_with_team :: "jsval \<Rightarrow> jsval" where
  \<comment> \<open>the scoreboard of one raw player that has a team and nothing else\<close>
  "canonical_with_team team = JObj [(''players'', JArr [JObj
     [(''name'', JStr ''Unknown''), (''champion'', JStr ''''), (''team'', team), (''level'', JNull),
      (''stats'', JObj [(''maxHealth'', JNull), (''attackDamage'', JNull), (''abilityPower'', JNull),
                        (''armor'', JNull), (''magicResist'', JNull)]),
      (''items'', JArr [])]])]"

definition toString_player :: jsval where
  \<comment> \<open>a raw player as parsed from \<^verbatim>\<open>{"level":{"toString":1}}\<close>\<close>
  "toString_player = JObj [(''level'', JObj [(''toString'', JNum (Fin 1))])]"

definition update_with :: "jsval list \<Rightarrow> jsval" where
  \<comment> \<open>an info update that carries the given player list\<close>
  "update_with players = JObj [(''live_client_data'', JObj [(''allPlayers'', JArr players)])]"


definition named :: "string \<Rightarrow> event list \<Rightarrow> event list" where
  "named name evs = filter (\<lambda>e. fst e = name) evs"

definition poller_inv :: "gep_state \<Rightarrow> bool" where
  "poller_inv st =
     (intervals st = (case leaguePollingTimer st of None \<Rightarrow> [] | Some h \<Rightarrow> [h]))"

fun is_settle :: "input \<Rightarrow> bool" where
  "is_settle (FetchSettled outcome now) = True"
| "is_settle i = False"

section \<open>Numeric conversion and rounding\<close>

lemma floor_rat_numeral: "\<lfloor>numeral a / numeral b :: rat\<rfloor> = numeral a div numeral b"
  by (metis floor_divide_of_int_eq of_int_numeral)

lemma floor_rat_neg_numeral: "\<lfloor>- (numeral a / numeral b) :: rat\<rfloor> = - numeral a div numeral b"
  by (metis floor_divide_of_int_eq of_int_numeral of_int_minus minus_divide_left)

lemma round_half_even_of_int [simp]: "round_half_even (of_int k) = k"
  by (simp add: round_half_even_def)

text \<open>An integer below \<open>2 ^ 53\<close> is a double.\<close>

lemma to_double_int:
  assumes "q \<in> \<int>" and "\<bar>q\<bar> < 2 ^ 53"
  shows "to_double q = Fin q"
proof (cases "q = 0")
  case True
  then show ?thesis by (simp add: to_double_def)
next
  case False
  from assms(1) obtain n where n: "q = of_int n" by (auto elim: Ints_cases)
  define m where "m = \<bar>n\<bar>"
  from False n have m0: "0 < m" by (simp add: m_def)
  have a: "\<bar>q\<bar> = of_int m" by (simp add: n m_def)
  from assms(2) a have "(of_int m :: rat) < of_int (2 ^ 53)" by simp
  then have m53: "m < 2 ^ 53" by (simp only: of_int_less_iff)
  define b where "b = bitlen m"
  from m0 have b1: "1 \<le> b" unfolding b_def by (simp add: bitlen_ge_iff_power)
  from m53 have b53: "b \<le> 53" unfolding b_def by (simp add: bitlen_le_iff_power)
  have il: "ilog2 (of_int m) = b - 1"
    using m0 by (simp add: ilog2_def b_def)
  have e: "max (ilog2 (of_int m)) (- 1022) = b - 1"
    using il b1 by simp
  define k where "k = nat (53 - b)"
  have ulp: "(2::rat) powi (b - 53) = 1 / 2 ^ k"
    using b53 by (simp add: power_int_def k_def field_simps)
  have quot: "(of_int m :: rat) / (1 / 2 ^ k) = of_int (m * 2 ^ k)"
    by simp
  have r: "of_int (round_half_even (of_int m / 2 powi (b - 53))) * 2 powi (b - 53) = (of_int m :: rat)"
    unfolding ulp quot round_half_even_of_int by simp
  have big: "\<not> (2 ^ 1024 \<le> (of_int m :: rat))"
  proof -
    have "(of_int m :: rat) < 2 ^ 53" using m53 by (metis of_int_less_iff of_int_numeral of_int_power)
    also have "(2::rat) ^ 53 \<le> 2 ^ 1024" by simp
    finally show ?thesis by simp
  qed
  have "to_double q = Fin (if 0 < q then of_int m else - of_int m)"
    using False big by (simp add: to_double_def Let_def a e r)
  also have "(if 0 < q then of_int m else - of_int m) = q"
    using a by (auto simp: abs_if split: if_splits)
  finally show ?thesis .
qed

text \<open>The integer \<open>2 ^ 53 + 1\<close> is not: it lies halfway between two doubles and goes to the even one.\<close>

lemma to_double_tie_to_even: "to_double 9007199254740993 = Fin 9007199254740992"
proof -
  have b: "bitlen 9007199254740993 = 54"
    using bitlen_twopow_add_eq [of 1 53] by simp
  show ?thesis
    by (simp add: to_double_def ilog2_def Let_def b round_half_even_def floor_rat_numeral)
qed

lemmas num_eval = StringToNumber_def trim_def is_ws_def radix_prefix_def parse_decimal_def
  parse_unsigned_def is_digit_def digit_of_def digits_val_def to_double_int all_digits_def
  scale10_def

lemma StringToNumber_rounds: "StringToNumber ''9007199254740993'' = Fin 9007199254740992"
  by (simp add: StringToNumber_def trim_def is_ws_def radix_prefix_def parse_decimal_def
      parse_unsigned_def is_digit_def digit_of_def digits_val_def to_double_tie_to_even)

lemma Math_round_of_int [simp]: "Math_round (of_int n) = n"
proof -
  have "\<lfloor>(of_int n :: rat) + 1 / 2\<rfloor> = n" by linarith
  then show ?thesis by (simp add: Math_round_def)
qed


lemma ToNumber_simps [simp]:
  "ToNumber JUndefined = Inr NaN" "ToNumber JNull = Inr (Fin 0)" "ToNumber (JNum n) = Inr n"
  "ToNumber (JStr s) = Inr (StringToNumber s)"
  by (simp_all add: ToNumber_def)

lemma normalizeStat_cases:
  "normalizeStat v = Inl cannot_convert \<or> normalizeStat v = Inr JNull \<or>
   (\<exists>n. normalizeStat v = Inr (JNum (Fin (of_int n))))"
  by (simp add: normalizeStat_def ToNumber_def split: jsnum.split)

lemma normalizeStat_undefined [simp]: "normalizeStat JUndefined = Inr JNull"
  by (simp add: normalizeStat_def)

lemma normalizeStat_int [simp]:
  "normalizeStat (JNum (Fin (of_int n))) = Inr (JNum (Fin (of_int n)))"
  by (simp add: normalizeStat_def)

lemma normalizeStat_null [simp]: "normalizeStat JNull = Inr (JNum (Fin 0))"
  using Math_round_of_int [of 0] by (simp add: normalizeStat_def)

lemma normalizeStat_toString:
  "normalizeStat (JObj [(''toString'', v)]) = Inl cannot_convert"
  by (simp add: normalizeStat_def ToNumber_def)



section \<open>The normalizer\<close>

lemma orElse_simps [simp]:
  "orElse JUndefined b = b" "orElse JNull b = b"
  "orElse (JStr s) b = JStr s" "orElse (JNum n) b = JNum n" "orElse (JObj kvs) b = JObj kvs"
  "orElse (JArr xs) b = JArr xs" "orElse (JBool c) b = JBool c"
  by (simp_all add: orElse_def nullish_def)

lemma orElse_if: "orElse a b = (if nullish a then b else a)"
  by (simp add: orElse_def)

lemma orElse_idem: "orElse (orElse a b) b = orElse a b"
  by (simp add: orElse_def)

lemma orElse_not_nullish: "\<not> nullish b \<Longrightarrow> orElse (orElse a b) c = orElse a b"
  by (simp add: orElse_def)

lemma nullish_orElse [simp]: "nullish (orElse a b) = (nullish a \<and> nullish b)"
  by (simp add: orElse_def)

lemma nullish_simps [simp]:
  "nullish JUndefined" "nullish JNull" "\<not> nullish (JStr s)" "\<not> nullish (JNum n)"
  "\<not> nullish (JObj kvs)" "\<not> nullish (JArr xs)" "\<not> nullish (JBool c)"
  by (simp_all add: nullish_def)

lemma then_do_simps [simp]:
  "then_do (Inl e) f = Inl e" "then_do (Inr x) f = f x"
  by (simp_all add: then_do_def)

lemma then_do_Inr: "(then_do r f = Inr y) = (\<exists>x. r = Inr x \<and> f x = Inr y)"
  by (cases r) simp_all

text \<open>A canonical stat, \<^verbatim>\<open>null\<close> or an integer, normalizes without throwing.\<close>

lemma normalizeStat_twice:
  "normalizeStat v = Inr w \<Longrightarrow> normalizeStat (orElse w JUndefined) = Inr w"
  using normalizeStat_cases [of v] by (auto simp: cannot_convert_def Error_def)

lemma normalizeStat_again:
  "normalizeStat v = Inr w \<Longrightarrow> \<exists>w'. normalizeStat w = Inr w' \<and> (w \<noteq> JNull \<longrightarrow> w' = w)"
  using normalizeStat_cases [of v] by auto

lemma mapItem_truthy [simp]: "truthy (mapItem i)"
  by (simp add: mapItem_def)

lemma filter_truthy_mapItem [simp]: "filter truthy (map mapItem xs) = map mapItem xs"
  by (induction xs) simp_all

lemma mapItem_mapItem:
  "mapItem (mapItem i) = JObj
     [(''name'', JStr ''Unknown Item''), (''rawDisplay'', JStr ''''), (''itemId'', JNum (Fin 0)),
      (''count'', getp (mapItem i) ''count'')]"
  by (simp add: mapItem_def orElse_if)

lemma mapItem_count:
  "getp (mapItem item) ''count'' =
     (if nullish (getp item ''count'') then JNum (Fin 1) else getp item ''count'')"
  by (simp add: mapItem_def orElse_if)

lemma count_ok_one: "count_ok (JNum (Fin 1))"
  by (simp add: count_ok_def)

text \<open>What a record that \<^verbatim>\<open>mapLeaguePlayer\<close> returns looks like.\<close>

lemma mapLeaguePlayer_Inr:
  "(mapLeaguePlayer player = Inr p) =
   (\<exists>level maxHealth attackDamage abilityPower armor magicResist.
      normalizeStat (orElse (getp player ''level'') (getp (statsSource player) ''level'')) = Inr level \<and>
      normalizeStat (orElse (getp (statsSource player) ''maxHealth'')
                            (getp (statsSource player) ''hp'')) = Inr maxHealth \<and>
      normalizeStat (orElse (getp (statsSource player) ''attackDamage'')
                            (getp (statsSource player) ''ad'')) = Inr attackDamage \<and>
      normalizeStat (orElse (getp (statsSource player) ''abilityPower'')
                            (getp (statsSource player) ''ap'')) = Inr abilityPower \<and>
      normalizeStat (getp (statsSource player) ''armor'') = Inr armor \<and>
      normalizeStat (orElse (orElse (getp (statsSource player) ''magicResist'')
                                    (getp (statsSource player) ''magicResistance''))
                            (getp (statsSource player) ''mr'')) = Inr magicResist \<and>
      p = JObj
       [(''name'', orElse (getp player ''summonerName'') (JStr ''Unknown'')),
        (''champion'', orElse (getp player ''championName'') (JStr '''')),
        (''team'', orElse (getp player ''team'') (JStr ''ORDER'')),
        (''level'', level),
        (''stats'', JObj
           [(''maxHealth'', maxHealth),
            (''attackDamage'', attackDamage),
            (''abilityPower'', abilityPower),
            (''armor'', armor),
            (''magicResist'', magicResist)]),
        (''items'', JArr (map mapItem (filter truthy (rawItems player))))])"
  unfolding mapLeaguePlayer_def then_do_Inr by auto

text \<open>\<^verbatim>\<open>mapLeaguePlayer\<close> returns a record unless printing one of the six raw stats throws.\<close>

lemma normalizeStat_returns: "(\<exists>w. normalizeStat v = Inr w) = (\<not> print_throws v)"
  by (simp add: normalizeStat_def ToNumber_def split: jsnum.split)

lemma mapLeaguePlayer_returns:
  "(\<exists>p. mapLeaguePlayer player = Inr p) =
   (\<not> prints_throw
      [orElse (getp player ''level'') (getp (statsSource player) ''level''),
       orElse (getp (statsSource player) ''maxHealth'') (getp (statsSource player) ''hp''),
       orElse (getp (statsSource player) ''attackDamage'') (getp (statsSource player) ''ad''),
       orElse (getp (statsSource player) ''abilityPower'') (getp (statsSource player) ''ap''),
       getp (statsSource player) ''armor'',
       orElse (orElse (getp (statsSource player) ''magicResist'')
                      (getp (statsSource player) ''magicResistance''))
              (getp (statsSource player) ''mr'')])"
  unfolding mapLeaguePlayer_Inr
  by (simp add: normalizeStat_returns [symmetric]) blast

lemma mapLeaguePlayer_canonical:
  "mapLeaguePlayer (JObj [(''name'', n), (''champion'', c), (''team'', t), (''level'', l),
      (''stats'', JObj [(''maxHealth'', h), (''attackDamage'', ad), (''abilityPower'', ap),
                        (''armor'', ar), (''magicResist'', mr)]),
      (''items'', JArr its)]) =
   then_do (normalizeStat (orElse l JUndefined)) (\<lambda>level.
   then_do (normalizeStat (orElse h JUndefined)) (\<lambda>maxHealth.
   then_do (normalizeStat (orElse ad JUndefined)) (\<lambda>attackDamage.
   then_do (normalizeStat (orElse ap JUndefined)) (\<lambda>abilityPower.
   then_do (normalizeStat ar) (\<lambda>armor.
   then_do (normalizeStat (orElse mr JUndefined)) (\<lambda>magicResist.
   Inr (JObj [(''name'', JStr ''Unknown''), (''champion'', JStr ''''), (''team'', orElse t (JStr ''ORDER'')),
      (''level'', level),
      (''stats'', JObj [(''maxHealth'', maxHealth), (''attackDamage'', attackDamage),
                        (''abilityPower'', abilityPower), (''armor'', armor),
                        (''magicResist'', magicResist)]),
      (''items'', JArr (map mapItem (filter truthy its)))])))))))"
  by (simp add: mapLeaguePlayer_def statsSource_def rawItems_def orElse_idem)

text \<open>The raw player of the specification's scenario (with an armor stat added) and its canonical record.\<close>

lemma mapLeaguePlayer_faker:
  "mapLeaguePlayer faker = Inr (JObj
     [(''name'', JStr ''Faker''), (''champion'', JStr ''Ahri''), (''team'', JStr ''ORDER''),
      (''level'', JNum (Fin 8)),
      (''stats'', JObj [(''maxHealth'', JNum (Fin 1200)), (''attackDamage'', JNull),
                        (''abilityPower'', JNull), (''armor'', JNum (Fin 30)),
                        (''magicResist'', JNull)]),
      (''items'', JArr [JObj [(''name'', JStr ''Boots''), (''rawDisplay'', JStr ''Boots''),
                              (''itemId'', JNum (Fin 1001)), (''count'', JNum (Fin 2))]])])"
proof -
  have s: "StringToNumber ''1200'' = Fin 1200" by (simp add: num_eval)
  have n: "normalizeStat (JNum (Fin (38 / 5))) = Inr (JNum (Fin 8))"
    "normalizeStat (JStr ''1200'') = Inr (JNum (Fin 1200))"
    "normalizeStat (JNum (Fin 30)) = Inr (JNum (Fin 30))"
    using s by (simp_all add: normalizeStat_def Math_round_def floor_rat_numeral)
  show ?thesis
    by (simp add: faker_def mapLeaguePlayer_def statsSource_def rawItems_def mapItem_def n)
qed

lemma normalizeStat_numerals:
  "normalizeStat (JNum (Fin 8)) = Inr (JNum (Fin 8))"
  "normalizeStat (JNum (Fin 1200)) = Inr (JNum (Fin 1200))"
  "normalizeStat (JNum (Fin 30)) = Inr (JNum (Fin 30))"
  by (simp_all add: normalizeStat_def Math_round_def floor_rat_numeral)

text \<open>
  Normalizing the canonical record of that player once more does not give the record
  back: the name, the champion and the item's name, display text and id are lost.
\<close>

theorem renormalize_counterexample:
  "mapLeaguePlayer faker = Inr (JObj canonical_faker) \<and>
   mapLeaguePlayer (JObj canonical_faker) = Inr (JObj
     [(''name'', JStr ''Unknown''), (''champion'', JStr ''''), (''team'', JStr ''ORDER''),
      (''level'', JNum (Fin 8)),
      (''stats'', JObj [(''maxHealth'', JNum (Fin 1200)), (''attackDamage'', JNull),
                        (''abilityPower'', JNull), (''armor'', JNum (Fin 30)),
                        (''magicResist'', JNull)]),
      (''items'', JArr [JObj [(''name'', JStr ''Unknown Item''), (''rawDisplay'', JStr ''''),
                              (''itemId'', JNum (Fin 0)), (''count'', JNum (Fin 2))]])]) \<and>
   mapLeaguePlayer (JObj canonical_faker) \<noteq> Inr (JObj canonical_faker)"
  by (simp add: mapLeaguePlayer_faker canonical_faker_def mapLeaguePlayer_canonical mapItem_def
      normalizeStat_numerals)

text \<open>
  Claim C1, as amended. The normalizer reads the raw keys (\<^verbatim>\<open>summonerName\<close>,
  \<^verbatim>\<open>championName\<close>, \<^verbatim>\<open>displayName\<close>, \<^verbatim>\<open>itemID\<close>), which a canonical record does not
  have. Normalizing a canonical record \<open>p\<close> again returns a record that keeps its team,
  its level, its maximum health, attack damage, ability power and magic resist
  (\<^verbatim>\<open>null\<close> or not), an armor that is not \<^verbatim>\<open>null\<close>, the number of its items and the count
  of each; the name becomes \<^verbatim>\<open>Unknown\<close>, the champion the empty string, and each item's
  name, display text and id become \<^verbatim>\<open>Unknown Item\<close>, the empty string and 0.
\<close>

theorem renormalize_canonical:
  "mapLeaguePlayer raw = Inr p \<Longrightarrow>
   \<exists>armor.
     mapLeaguePlayer p = Inr (JObj
       [(''name'', JStr ''Unknown''), (''champion'', JStr ''''), (''team'', getp p ''team''),
        (''level'', getp p ''level''),
        (''stats'', JObj
           [(''maxHealth'', getp (getp p ''stats'') ''maxHealth''),
            (''attackDamage'', getp (getp p ''stats'') ''attackDamage''),
            (''abilityPower'', getp (getp p ''stats'') ''abilityPower''),
            (''armor'', armor),
            (''magicResist'', getp (getp p ''stats'') ''magicResist'')]),
        (''items'', JArr (map (\<lambda>i. JObj [(''name'', JStr ''Unknown Item''), (''rawDisplay'', JStr ''''),
                                            (''itemId'', JNum (Fin 0)), (''count'', getp i ''count'')])
                              (elements (getp p ''items''))))]) \<and>
     (getp (getp p ''stats'') ''armor'' \<noteq> JNull \<longrightarrow> armor = getp (getp p ''stats'') ''armor'')"
proof -
  assume "mapLeaguePlayer raw = Inr p"
  then obtain level maxHealth attackDamage abilityPower armor magicResist where
    n: "normalizeStat (orElse (getp raw ''level'') (getp (statsSource raw) ''level'')) = Inr level"
       "normalizeStat (orElse (getp (statsSource raw) ''maxHealth'')
                              (getp (statsSource raw) ''hp'')) = Inr maxHealth"
       "normalizeStat (orElse (getp (statsSource raw) ''attackDamage'')
                              (getp (statsSource raw) ''ad'')) = Inr attackDamage"
       "normalizeStat (orElse (getp (statsSource raw) ''abilityPower'')
                              (getp (statsSource raw) ''ap'')) = Inr abilityPower"
       "normalizeStat (getp (statsSource raw) ''armor'') = Inr armor"
       "normalizeStat (orElse (orElse (getp (statsSource raw) ''magicResist'')
                                      (getp (statsSource raw) ''magicResistance''))
                              (getp (statsSource raw) ''mr'')) = Inr magicResist"
    and p: "p = JObj
       [(''name'', orElse (getp raw ''summonerName'') (JStr ''Unknown'')),
        (''champion'', orElse (getp raw ''championName'') (JStr '''')),
        (''team'', orElse (getp raw ''team'') (JStr ''ORDER'')),
        (''level'', level),
        (''stats'', JObj
           [(''maxHealth'', maxHealth),
            (''attackDamage'', attackDamage),
            (''abilityPower'', abilityPower),
            (''armor'', armor),
            (''magicResist'', magicResist)]),
        (''items'', JArr (map mapItem (filter truthy (rawItems raw))))]"
    unfolding mapLeaguePlayer_Inr by blast
  from normalizeStat_again [OF n(5)] obtain armor' where
    a: "normalizeStat armor = Inr armor'" "armor \<noteq> JNull \<longrightarrow> armor' = armor"
    by blast
  have "mapLeaguePlayer p = Inr (JObj
       [(''name'', JStr ''Unknown''), (''champion'', JStr ''''), (''team'', getp p ''team''),
        (''level'', getp p ''level''),
        (''stats'', JObj
           [(''maxHealth'', getp (getp p ''stats'') ''maxHealth''),
            (''attackDamage'', getp (getp p ''stats'') ''attackDamage''),
            (''abilityPower'', getp (getp p ''stats'') ''abilityPower''),
            (''armor'', armor'),
            (''magicResist'', getp (getp p ''stats'') ''magicResist'')]),
        (''items'', JArr (map (\<lambda>i. JObj [(''name'', JStr ''Unknown Item''), (''rawDisplay'', JStr ''''),
                                            (''itemId'', JNum (Fin 0)), (''count'', getp i ''count'')])
                              (elements (getp p ''items''))))])"
    unfolding p
    by (simp add: mapLeaguePlayer_canonical normalizeStat_twice [OF n(1)] normalizeStat_twice [OF n(2)]
        normalizeStat_twice [OF n(3)] normalizeStat_twice [OF n(4)] normalizeStat_twice [OF n(6)]
        a(1) mapItem_mapItem orElse_not_nullish)
  moreover have "getp (getp p ''stats'') ''armor'' = armor"
    unfolding p by simp
  ultimately show ?thesis using a(2) by blast
qed

theorem renormalize_canonical_witness:
  "mapLeaguePlayer faker = Inr (JObj canonical_faker) \<and>
   getp (getp (JObj canonical_faker) ''stats'') ''armor'' = JNum (Fin 30) \<and>
   mapLeaguePlayer (JObj canonical_faker) = Inr (JObj
     [(''name'', JStr ''Unknown''), (''champion'', JStr ''''), (''team'', JStr ''ORDER''),
      (''level'', JNum (Fin 8)),
      (''stats'', JObj [(''maxHealth'', JNum (Fin 1200)), (''attackDamage'', JNull),
                        (''abilityPower'', JNull), (''armor'', JNum (Fin 30)),
                        (''magicResist'', JNull)]),
      (''items'', JArr [JObj [(''name'', JStr ''Unknown Item''), (''rawDisplay'', JStr ''''),
                              (''itemId'', JNum (Fin 0)), (''count'', JNum (Fin 2))]])])"
proof -
  have f: "mapLeaguePlayer faker = Inr (JObj canonical_faker)"
    by (simp add: mapLeaguePlayer_faker canonical_faker_def)
  from renormalize_canonical [OF f]
  show ?thesis
    by (auto simp add: f) (simp_all add: canonical_faker_def)
qed

lemma mapLeaguePlayer_fields:
  assumes "mapLeaguePlayer player = Inr p"
  shows "getp p ''name'' = orElse (getp player ''summonerName'') (JStr ''Unknown'')"
    and "getp p ''champion'' = orElse (getp player ''championName'') (JStr '''')"
    and "getp p ''team'' = orElse (getp player ''team'') (JStr ''ORDER'')"
    and "getp p ''items'' = JArr (map mapItem (filter truthy (rawItems player)))"
  using assms unfolding mapLeaguePlayer_Inr by (elim exE conjE, simp)+

text \<open>
  A raw player without a team gets \<^verbatim>\<open>ORDER\<close>, not \<^verbatim>\<open>A\<close>, and a raw team that is neither of
  the two side tokens is copied as it is.
\<close>

theorem default_team_counterexample:
  "mapLeaguePlayer (JObj []) = Inr (JObj
     [(''name'', JStr ''Unknown''), (''champion'', JStr ''''), (''team'', JStr ''ORDER''),
      (''level'', JNull),
      (''stats'', JObj [(''maxHealth'', JNull), (''attackDamage'', JNull), (''abilityPower'', JNull),
                        (''armor'', JNull), (''magicResist'', JNull)]),
      (''items'', JArr [])]) \<and>
   JStr ''ORDER'' \<noteq> JStr ''A'' \<and>
   mapLeaguePlayer (JObj [(''team'', JStr ''NEUTRAL'')]) = Inr (JObj
     [(''name'', JStr ''Unknown''), (''champion'', JStr ''''), (''team'', JStr ''NEUTRAL''),
      (''level'', JNull),
      (''stats'', JObj [(''maxHealth'', JNull), (''attackDamage'', JNull), (''abilityPower'', JNull),
                        (''armor'', JNull), (''magicResist'', JNull)]),
      (''items'', JArr [])])"
  by (simp add: mapLeaguePlayer_def statsSource_def rawItems_def)

text \<open>
  Claim C7, as amended. In the record that normalization returns, a missing
  (\<^verbatim>\<open>undefined\<close> or \<^verbatim>\<open>null\<close>) \<^verbatim>\<open>summonerName\<close>, \<^verbatim>\<open>championName\<close> or \<^verbatim>\<open>team\<close> is replaced
  by \<^verbatim>\<open>Unknown\<close>, the empty string and \<^verbatim>\<open>ORDER\<close>; a value that is present is copied
  unchanged. So the canonical team is one of \<^verbatim>\<open>ORDER\<close> and \<^verbatim>\<open>CHAOS\<close> whenever the raw team
  is missing or one of these two.
\<close>

theorem mapLeaguePlayer_defaults:
  "mapLeaguePlayer player = Inr p \<longrightarrow>
   getp p ''name'' =
     (if nullish (getp player ''summonerName'') then JStr ''Unknown'' else getp player ''summonerName'') \<and>
   getp p ''champion'' =
     (if nullish (getp player ''championName'') then JStr '''' else getp player ''championName'') \<and>
   getp p ''team'' =
     (if nullish (getp player ''team'') then JStr ''ORDER'' else getp player ''team'') \<and>
   (nullish (getp player ''team'') \<or> getp player ''team'' \<in> {JStr ''ORDER'', JStr ''CHAOS''} \<longrightarrow>
      getp p ''team'' \<in> {JStr ''ORDER'', JStr ''CHAOS''})"
proof
  assume m: "mapLeaguePlayer player = Inr p"
  show "getp p ''name'' =
     (if nullish (getp player ''summonerName'') then JStr ''Unknown'' else getp player ''summonerName'') \<and>
   getp p ''champion'' =
     (if nullish (getp player ''championName'') then JStr '''' else getp player ''championName'') \<and>
   getp p ''team'' =
     (if nullish (getp player ''team'') then JStr ''ORDER'' else getp player ''team'') \<and>
   (nullish (getp player ''team'') \<or> getp player ''team'' \<in> {JStr ''ORDER'', JStr ''CHAOS''} \<longrightarrow>
      getp p ''team'' \<in> {JStr ''ORDER'', JStr ''CHAOS''})"
    unfolding mapLeaguePlayer_fields [OF m] by (auto simp add: orElse_if)
qed

theorem mapLeaguePlayer_defaults_witness:
  "mapLeaguePlayer (JObj [(''team'', JNull)]) = Inr (JObj
     [(''name'', JStr ''Unknown''), (''champion'', JStr ''''), (''team'', JStr ''ORDER''),
      (''level'', JNull),
      (''stats'', JObj [(''maxHealth'', JNull), (''attackDamage'', JNull), (''abilityPower'', JNull),
                        (''armor'', JNull), (''magicResist'', JNull)]),
      (''items'', JArr [])]) \<and>
   nullish (getp (JObj [(''team'', JNull)]) ''team'') \<and>
   getp (JObj
     [(''name'', JStr ''Unknown''), (''champion'', JStr ''''), (''team'', JStr ''ORDER''),
      (''level'', JNull),
      (''stats'', JObj [(''maxHealth'', JNull), (''attackDamage'', JNull), (''abilityPower'', JNull),
                        (''armor'', JNull), (''magicResist'', JNull)]),
      (''items'', JArr [])]) ''team'' \<in> {JStr ''ORDER'', JStr ''CHAOS''}"
proof -
  have m: "mapLeaguePlayer (JObj [(''team'', JNull)]) = Inr (JObj
     [(''name'', JStr ''Unknown''), (''champion'', JStr ''''), (''team'', JStr ''ORDER''),
      (''level'', JNull),
      (''stats'', JObj [(''maxHealth'', JNull), (''attackDamage'', JNull), (''abilityPower'', JNull),
                        (''armor'', JNull), (''magicResist'', JNull)]),
      (''items'', JArr [])])"
    by (simp add: mapLeaguePlayer_def statsSource_def rawItems_def)
  from mapLeaguePlayer_defaults [of "JObj [(''team'', JNull)]", rule_format, OF m] m
  show ?thesis by simp
qed

text \<open>A raw item whose count is 0 keeps the count 0.\<close>

theorem item_count_counterexample:
  "mapLeaguePlayer (JObj [(''items'', JArr [JObj [(''displayName'', JStr ''Boots''),
      (''count'', JNum (Fin 0))]])]) = Inr (JObj
     [(''name'', JStr ''Unknown''), (''champion'', JStr ''''), (''team'', JStr ''ORDER''),
      (''level'', JNull),
      (''stats'', JObj [(''maxHealth'', JNull), (''attackDamage'', JNull), (''abilityPower'', JNull),
                        (''armor'', JNull), (''magicResist'', JNull)]),
      (''items'', JArr [JObj [(''name'', JStr ''Boots''), (''rawDisplay'', JStr ''Boots''),
                              (''itemId'', JNum (Fin 0)), (''count'', JNum (Fin 0))]])]) \<and>
   \<not> count_ok (JNum (Fin 0))"
  by (simp add: mapLeaguePlayer_def statsSource_def rawItems_def mapItem_def count_ok_def)

text \<open>
  Claim C8, as amended. In the record that normalization returns, the items are the
  truthy raw entries, mapped in their order; the count of an item is 1 when the raw
  entry has none (\<^verbatim>\<open>undefined\<close> or \<^verbatim>\<open>null\<close>) and the raw count unchanged otherwise. So
  every canonical count is an integer of at least 1 whenever every truthy raw entry has
  no count or such a count.
\<close>

theorem items_filtered_count_defaulted:
  "(mapLeaguePlayer player = Inr p \<longrightarrow>
      elements (getp p ''items'') = map mapItem (filter truthy (rawItems player)) \<and>
      ((\<forall>raw \<in> set (rawItems player). truthy raw \<longrightarrow>
           nullish (getp raw ''count'') \<or> count_ok (getp raw ''count'')) \<longrightarrow>
       (\<forall>out \<in> set (elements (getp p ''items'')). count_ok (getp out ''count'')))) \<and>
   getp (mapItem item) ''count'' =
     (if nullish (getp item ''count'') then JNum (Fin 1) else getp item ''count'')"
proof -
  have a: "elements (getp p ''items'') = map mapItem (filter truthy (rawItems player))"
    if "mapLeaguePlayer player = Inr p"
    using that by (simp add: mapLeaguePlayer_fields)
  have b: "\<forall>out \<in> set (map mapItem (filter truthy (rawItems player))). count_ok (getp out ''count'')"
    if "\<forall>raw \<in> set (rawItems player). truthy raw \<longrightarrow>
           nullish (getp raw ''count'') \<or> count_ok (getp raw ''count'')"
    using that by (auto simp add: mapItem_count count_ok_one)
  show ?thesis
  proof (intro conjI impI)
    assume m: "mapLeaguePlayer player = Inr p"
    show "elements (getp p ''items'') = map mapItem (filter truthy (rawItems player))"
      by (rule a [OF m])
  next
    assume m: "mapLeaguePlayer player = Inr p"
      and h: "\<forall>raw \<in> set (rawItems player). truthy raw \<longrightarrow>
           nullish (getp raw ''count'') \<or> count_ok (getp raw ''count'')"
    show "\<forall>out \<in> set (elements (getp p ''items'')). count_ok (getp out ''count'')"
      unfolding a [OF m] by (rule b [OF h])
  next
    show "getp (mapItem item) ''count'' =
        (if nullish (getp item ''count'') then JNum (Fin 1) else getp item ''count'')"
      by (rule mapItem_count)
  qed
qed

theorem items_filtered_count_defaulted_witness:
  "rawItems (JObj [(''items'', JArr [JNull, JObj [(''displayName'', JStr ''Boots'')],
       JNum (Fin 0), JObj [(''count'', JNum (Fin 2))]])]) =
     [JNull, JObj [(''displayName'', JStr ''Boots'')], JNum (Fin 0), JObj [(''count'', JNum (Fin 2))]] \<and>
   mapLeaguePlayer (JObj [(''items'', JArr [JNull, JObj [(''displayName'', JStr ''Boots'')],
       JNum (Fin 0), JObj [(''count'', JNum (Fin 2))]])]) = Inr (JObj
     [(''name'', JStr ''Unknown''), (''champion'', JStr ''''), (''team'', JStr ''ORDER''),
      (''level'', JNull),
      (''stats'', JObj [(''maxHealth'', JNull), (''attackDamage'', JNull), (''abilityPower'', JNull),
                        (''armor'', JNull), (''magicResist'', JNull)]),
      (''items'', JArr
        [JObj [(''name'', JStr ''Boots''), (''rawDisplay'', JStr ''Boots''),
               (''itemId'', JNum (Fin 0)), (''count'', JNum (Fin 1))],
         JObj [(''name'', JStr ''Unknown Item''), (''rawDisplay'', JStr ''''),
               (''itemId'', JNum (Fin 0)), (''count'', JNum (Fin 2))]])]) \<and>
   count_ok (JNum (Fin 1)) \<and> count_ok (JNum (Fin 2))"
proof -
  have m: "mapLeaguePlayer (JObj [(''items'', JArr [JNull, JObj [(''displayName'', JStr ''Boots'')],
       JNum (Fin 0), JObj [(''count'', JNum (Fin 2))]])]) = Inr (JObj
     [(''name'', JStr ''Unknown''), (''champion'', JStr ''''), (''team'', JStr ''ORDER''),
      (''level'', JNull),
      (''stats'', JObj [(''maxHealth'', JNull), (''attackDamage'', JNull), (''abilityPower'', JNull),
                        (''armor'', JNull), (''magicResist'', JNull)]),
      (''items'', JArr
        [JObj [(''name'', JStr ''Boots''), (''rawDisplay'', JStr ''Boots''),
               (''itemId'', JNum (Fin 0)), (''count'', JNum (Fin 1))],
         JObj [(''name'', JStr ''Unknown Item''), (''rawDisplay'', JStr ''''),
               (''itemId'', JNum (Fin 0)), (''count'', JNum (Fin 2))]])])"
    by (simp add: mapLeaguePlayer_def statsSource_def rawItems_def mapItem_def)
  from items_filtered_count_defaulted [of "JObj [(''items'', JArr [JNull, JObj [(''displayName'', JStr ''Boots'')],
       JNum (Fin 0), JObj [(''count'', JNum (Fin 2))]])]" _ JNull] m
  show ?thesis
    by (simp add: rawItems_def mapItem_def count_ok_def)
qed

section \<open>The differ compares token sequences\<close>

lemma commas_Cons: "commas (t # ts) = t @ (if ts = [] then [] else Comma # commas ts)"
  by (cases ts) auto

lemma element_tokens_Nil: "(element_tokens xs = []) = (xs = [])"
  by (cases xs) simp_all

lemma tokens_start:
  "tokens v \<noteq> [] \<and> hd (tokens v) \<noteq> RBracket \<and> hd (tokens v) \<noteq> RBrace \<and> hd (tokens v) \<noteq> Comma"
proof (cases v)
  case (JNum n)
  then show ?thesis by (cases n) auto
qed auto

lemma tokens_append_start [simp]:
  "tokens v @ r \<noteq> RBracket # r'" "tokens v @ r \<noteq> RBrace # r'" "tokens v @ r \<noteq> Comma # r'"
  "RBracket # r' \<noteq> tokens v @ r" "RBrace # r' \<noteq> tokens v @ r" "Comma # r' \<noteq> tokens v @ r"
  using tokens_start [of v] by (cases "tokens v"; auto)+

lemma json_value_cases:
  assumes "json_value v"
  obtains "v = JNull" | b where "v = JBool b" | q where "v = JNum (Fin q)" | s where "v = JStr s"
    | xs where "v = JArr xs" "json_values xs" | kvs where "v = JObj kvs" "json_properties kvs"
proof (cases v)
  case (JNum n)
  with assms show thesis by (cases n) (auto intro: that)
qed (use assms in \<open>auto intro: that\<close>)

lemma tokens_inj_aux:
  "json_value v \<longrightarrow> (\<forall>v' r r'. json_value v' \<longrightarrow> tokens v @ r = tokens v' @ r' \<longrightarrow> v = v' \<and> r = r')"
  "json_values xs \<longrightarrow> (\<forall>ys r r'. json_values ys \<longrightarrow>
      commas (element_tokens xs) @ RBracket # r = commas (element_tokens ys) @ RBracket # r' \<longrightarrow> xs = ys \<and> r = r')"
  "json_properties kvs \<longrightarrow> (\<forall>kvs' r r'. json_properties kvs' \<longrightarrow>
      commas (property_tokens kvs) @ RBrace # r = commas (property_tokens kvs') @ RBrace # r' \<longrightarrow> kvs = kvs' \<and> r = r')"
proof (induction v and xs and kvs rule: json_value_json_values_json_properties.induct)
  case 1
  then show ?case by simp
next
  case 2
  show ?case
  proof (intro impI allI)
    fix v' r r'
    assume a: "json_value v'" "tokens JNull @ r = tokens v' @ r'"
    from a(1) show "JNull = v' \<and> r = r'"
      by (cases rule: json_value_cases) (use a in \<open>auto split: if_splits\<close>)
  qed
next
  case (3 b)
  show ?case
  proof (intro impI allI)
    fix v' r r'
    assume a: "json_value v'" "tokens (JBool b) @ r = tokens v' @ r'"
    from a(1) show "JBool b = v' \<and> r = r'"
      by (cases rule: json_value_cases) (use a in \<open>auto split: if_splits\<close>)
  qed
next
  case (4 q)
  show ?case
  proof (intro impI allI)
    fix v' r r'
    assume a: "json_value v'" "tokens (JNum (Fin q)) @ r = tokens v' @ r'"
    from a(1) show "JNum (Fin q) = v' \<and> r = r'"
      by (cases rule: json_value_cases) (use a in \<open>auto split: if_splits\<close>)
  qed
next
  case 5 then show ?case by simp
next
  case 6 then show ?case by simp
next
  case 7 then show ?case by simp
next
  case (8 s)
  show ?case
  proof (intro impI allI)
    fix v' r r'
    assume a: "json_value v'" "tokens (JStr s) @ r = tokens v' @ r'"
    from a(1) show "JStr s = v' \<and> r = r'"
      by (cases rule: json_value_cases) (use a in \<open>auto split: if_splits\<close>)
  qed
next
  case (9 xs)
  show ?case
  proof (intro impI allI)
    fix v' r r'
    assume j: "json_value (JArr xs)" and a: "json_value v'" "tokens (JArr xs) @ r = tokens v' @ r'"
    from a(1) show "JArr xs = v' \<and> r = r'"
    proof (cases rule: json_value_cases)
      case (5 ys)
      with a(2) have "commas (element_tokens xs) @ RBracket # r = commas (element_tokens ys) @ RBracket # r'"
        by simp
      moreover from j have "json_values xs" by simp
      with 9 have "\<forall>ys r r'. json_values ys \<longrightarrow>
          commas (element_tokens xs) @ RBracket # r = commas (element_tokens ys) @ RBracket # r' \<longrightarrow>
          xs = ys \<and> r = r'"
        by (rule mp)
      ultimately show ?thesis using 5 by blast
    qed (use a in \<open>simp_all split: if_splits\<close>)
  qed
next
  case (10 kvs)
  show ?case
  proof (intro impI allI)
    fix v' r r'
    assume j: "json_value (JObj kvs)" and a: "json_value v'" "tokens (JObj kvs) @ r = tokens v' @ r'"
    from a(1) show "JObj kvs = v' \<and> r = r'"
    proof (cases rule: json_value_cases)
      case (6 kvs')
      with a(2) have "commas (property_tokens kvs) @ RBrace # r = commas (property_tokens kvs') @ RBrace # r'"
        by simp
      moreover from j have "json_properties kvs" by simp
      with 10 have "\<forall>kvs' r r'. json_properties kvs' \<longrightarrow>
          commas (property_tokens kvs) @ RBrace # r = commas (property_tokens kvs') @ RBrace # r' \<longrightarrow>
          kvs = kvs' \<and> r = r'"
        by (rule mp)
      ultimately show ?thesis using 6 by blast
    qed (use a in \<open>simp_all split: if_splits\<close>)
  qed
next
  case 11
  show ?case
  proof (intro impI allI)
    fix ys r r'
    assume a: "commas (element_tokens []) @ RBracket # r = commas (element_tokens ys) @ RBracket # r'"
    show "[] = ys \<and> r = r'"
    proof (cases ys)
      case Nil
      with a show ?thesis by simp
    next
      case (Cons y ys')
      with a show ?thesis
        by (simp add: commas_Cons element_tokens_Nil del: commas.simps(2,3))
    qed
  qed
next
  case (12 x xs)
  show ?case
  proof (intro impI allI)
    fix ys r r'
    assume j: "json_values (x # xs)" and jy: "json_values ys"
      and a: "commas (element_tokens (x # xs)) @ RBracket # r = commas (element_tokens ys) @ RBracket # r'"
    show "x # xs = ys \<and> r = r'"
    proof (cases ys)
      case Nil
      with a show ?thesis
        by (simp add: commas_Cons element_tokens_Nil del: commas.simps(2,3))
    next
      case (Cons y ys')
      let ?l = "(if xs = [] then [] else Comma # commas (element_tokens xs)) @ RBracket # r"
      let ?r = "(if ys' = [] then [] else Comma # commas (element_tokens ys')) @ RBracket # r'"
      from j have jx: "json_value x" "json_values xs" by simp_all
      from jy Cons have jy': "json_value y" "json_values ys'" by simp_all
      from 12(1) jx(1) have ihx: "\<forall>v' r r'. json_value v' \<longrightarrow> tokens x @ r = tokens v' @ r' \<longrightarrow> x = v' \<and> r = r'"
        by (rule mp)
      from 12(2) jx(2) have ihxs: "\<forall>ys r r'. json_values ys \<longrightarrow>
          commas (element_tokens xs) @ RBracket # r = commas (element_tokens ys) @ RBracket # r' \<longrightarrow>
          xs = ys \<and> r = r'"
        by (rule mp)
      from a Cons have "tokens x @ ?l = tokens y @ ?r"
        by (simp add: commas_Cons element_tokens_Nil del: commas.simps(2,3))
      with ihx jy'(1) have xy: "x = y" and lr: "?l = ?r"
        by blast+
      from lr have "commas (element_tokens xs) @ RBracket # r = commas (element_tokens ys') @ RBracket # r'"
        by (cases xs; cases ys') (simp_all del: commas.simps(2,3))
      with ihxs jy'(2) have "xs = ys' \<and> r = r'" by blast
      with xy Cons show ?thesis by simp
    qed
  qed
next
  case 13
  show ?case
  proof (intro impI allI)
    fix kvs' r r'
    assume jy: "json_properties kvs'"
      and a: "commas (property_tokens []) @ RBrace # r = commas (property_tokens kvs') @ RBrace # r'"
    show "[] = kvs' \<and> r = r'"
    proof (cases kvs')
      case Nil
      with a show ?thesis by simp
    next
      case (Cons p ps)
      obtain k v where p: "p = (k, v)" by (cases p)
      with jy Cons have "v \<noteq> JUndefined" by auto
      with a Cons p show ?thesis
        by (simp add: commas_Cons element_tokens_Nil del: commas.simps(2,3))
    qed
  qed
next
  case (14 k v kvs)
  show ?case
  proof (intro impI allI)
    fix kvs' r r'
    assume j: "json_properties ((k, v) # kvs)" and jy: "json_properties kvs'"
      and a: "commas (property_tokens ((k, v) # kvs)) @ RBrace # r = commas (property_tokens kvs') @ RBrace # r'"
    from j have v: "v \<noteq> JUndefined" by auto
    show "(k, v) # kvs = kvs' \<and> r = r'"
    proof (cases kvs')
      case Nil
      with a v show ?thesis
        by (simp add: commas_Cons element_tokens_Nil del: commas.simps(2,3))
    next
      case (Cons p ps)
      obtain k' v' where p: "p = (k', v')" by (cases p)
      with jy Cons have v': "v' \<noteq> JUndefined" by auto
      let ?l = "(if property_tokens kvs = [] then [] else Comma # commas (property_tokens kvs)) @ RBrace # r"
      let ?r = "(if property_tokens ps = [] then [] else Comma # commas (property_tokens ps)) @ RBrace # r'"
      from j have jx: "json_value v" "json_properties kvs" by simp_all
      from jy Cons p have jy': "json_value v'" "json_properties ps" by simp_all
      from 14(1) jx(1) have ihv: "\<forall>v' r r'. json_value v' \<longrightarrow> tokens v @ r = tokens v' @ r' \<longrightarrow> v = v' \<and> r = r'"
        by (rule mp)
      from 14(2) jx(2) have ihkvs: "\<forall>kvs' r r'. json_properties kvs' \<longrightarrow>
          commas (property_tokens kvs) @ RBrace # r = commas (property_tokens kvs') @ RBrace # r' \<longrightarrow>
          kvs = kvs' \<and> r = r'"
        by (rule mp)
      from a Cons p v v' have k: "k = k'" and "tokens v @ ?l = tokens v' @ ?r"
        by (simp_all add: commas_Cons element_tokens_Nil del: commas.simps(2,3))
      with ihv jy'(1) have vv: "v = v'" and lr: "?l = ?r"
        by blast+
      from lr have "commas (property_tokens kvs) @ RBrace # r = commas (property_tokens ps) @ RBrace # r'"
        by (cases "property_tokens kvs"; cases "property_tokens ps") (simp_all del: commas.simps(2,3))
      with ihkvs jy'(2) have "kvs = ps \<and> r = r'" by blast
      with k vv Cons p show ?thesis by simp
    qed
  qed
qed

lemma tokens_inj:
  assumes "json_value a" and "json_value b" and "tokens a = tokens b"
  shows "a = b"
proof -
  from assms(3) have "tokens a @ [] = tokens b @ []" by simp
  with tokens_inj_aux(1) [of a, rule_format, of b "[]" "[]"] assms(1,2) show ?thesis by simp
qed

lemma changed_json: "json_value a \<Longrightarrow> json_value b \<Longrightarrow> changed a b = (a \<noteq> b)"
proof -
  assume j: "json_value a" "json_value b"
  then have "a \<noteq> JUndefined" "b \<noteq> JUndefined" by auto
  then have "changed a b = (tokens a \<noteq> tokens b)"
    by (simp add: changed_def JSON_stringify_def)
  with j tokens_inj [of a b] show ?thesis by metis
qed


lemma json_values_list_all: "json_values xs = list_all json_value xs"
  by (induction xs) simp_all

lemma json_map_of: "json_properties kvs \<Longrightarrow> map_of kvs k = Some v \<Longrightarrow> json_value v"
  by (induction kvs) (auto split: if_splits)

lemma json_getp: "json_value v \<Longrightarrow> getp v k = JUndefined \<or> json_value (getp v k)"
  by (cases v) (auto split: option.split dest: json_map_of)

lemma json_orElse:
  "a = JUndefined \<or> json_value a \<Longrightarrow> json_value b \<Longrightarrow> json_value (orElse a b)"
  by (auto simp: orElse_def)

lemma json_orElse_getp:
  "json_value v \<Longrightarrow> json_value b \<Longrightarrow> json_value (orElse (getp v k) b)"
  using json_getp [of v k] by (rule json_orElse)

lemma json_normalizeStat: "normalizeStat v = Inr w \<Longrightarrow> json_value w"
  using normalizeStat_cases [of v] by auto

lemma json_mapItem: "json_value i \<Longrightarrow> json_value (mapItem i)"
  by (simp add: mapItem_def json_orElse_getp)

lemma json_rawItems: "json_value p \<Longrightarrow> list_all json_value (rawItems p)"
  using json_getp [of p "''items''"]
  by (cases "getp p ''items''") (auto simp: rawItems_def json_values_list_all)

lemma json_mapLeaguePlayer:
  assumes "json_value player" and "mapLeaguePlayer player = Inr p"
  shows "json_value p"
proof -
  from assms(2) obtain level maxHealth attackDamage abilityPower armor magicResist where
    n: "json_value level" "json_value maxHealth" "json_value attackDamage"
       "json_value abilityPower" "json_value armor" "json_value magicResist"
    and p: "p = JObj
       [(''name'', orElse (getp player ''summonerName'') (JStr ''Unknown'')),
        (''champion'', orElse (getp player ''championName'') (JStr '''')),
        (''team'', orElse (getp player ''team'') (JStr ''ORDER'')),
        (''level'', level),
        (''stats'', JObj
           [(''maxHealth'', maxHealth),
            (''attackDamage'', attackDamage),
            (''abilityPower'', abilityPower),
            (''armor'', armor),
            (''magicResist'', magicResist)]),
        (''items'', JArr (map mapItem (filter truthy (rawItems player))))]"
    unfolding mapLeaguePlayer_Inr by (elim exE conjE) (blast dest: json_normalizeStat)
  from json_rawItems [OF assms(1)]
  have "json_values (map mapItem (filter truthy (rawItems player)))"
    by (simp add: json_values_list_all list_all_iff json_mapItem)
  with n assms(1) show ?thesis
    unfolding p by (simp add: json_orElse_getp)
qed

lemma json_mapPlayers: "json_values players \<Longrightarrow> mapPlayers players = Inr ps \<Longrightarrow> json_values ps"
  by (induction players arbitrary: ps) (auto simp add: then_do_Inr json_mapLeaguePlayer)



text \<open>
  Two raw players whose team is the same object with its two keys written in either
  order: the scoreboards hold the same key-value pairs everywhere, yet the check
  reports a change.
\<close>

theorem key_order_counterexample:
  "LeagueScoreboard [team_ab] =
     Inr (canonical_with_team (JObj [(''a'', JNum (Fin 1)), (''b'', JNum (Fin 2))])) \<and>
   LeagueScoreboard [team_ba] =
     Inr (canonical_with_team (JObj [(''b'', JNum (Fin 2)), (''a'', JNum (Fin 1))])) \<and>
   set [(''a'', JNum (Fin 1)), (''b'', JNum (Fin 2))] = set [(''b'', JNum (Fin 2)), (''a'', JNum (Fin 1))] \<and>
   changed (canonical_with_team (JObj [(''a'', JNum (Fin 1)), (''b'', JNum (Fin 2))]))
           (canonical_with_team (JObj [(''b'', JNum (Fin 2)), (''a'', JNum (Fin 1))]))"
proof -
  have "LeagueScoreboard [team_ab] =
     Inr (canonical_with_team (JObj [(''a'', JNum (Fin 1)), (''b'', JNum (Fin 2))]))"
    "LeagueScoreboard [team_ba] =
     Inr (canonical_with_team (JObj [(''b'', JNum (Fin 2)), (''a'', JNum (Fin 1))]))"
    by (simp_all add: LeagueScoreboard_def team_ab_def team_ba_def canonical_with_team_def
        mapLeaguePlayer_def statsSource_def rawItems_def)
  moreover have "changed (canonical_with_team (JObj [(''a'', JNum (Fin 1)), (''b'', JNum (Fin 2))]))
                         (canonical_with_team (JObj [(''b'', JNum (Fin 2)), (''a'', JNum (Fin 1))]))"
    by (simp add: changed_def JSON_stringify_def canonical_with_team_def)
  ultimately show ?thesis by auto
qed

text \<open>
  Claim C2, as amended. The check compares the two \<^verbatim>\<open>JSON.stringify\<close> texts. A value is
  never reported as changed against itself. On JSON data two values are reported equal
  exactly when they are identical in structure, in the order of the elements of every
  array (so in the order of a player's items) and in the order in which the keys of
  every object are enumerated: the check is sensitive to key order. So two scoreboards
  normalized from JSON data are reported equal exactly when their canonical player
  lists are equal, key order included.
\<close>

theorem differ_compares_serialisations:
  "\<not> changed a a \<and>
   (json_value a \<longrightarrow> json_value b \<longrightarrow> changed a b = (a \<noteq> b)) \<and>
   (json_values players \<longrightarrow> json_values players' \<longrightarrow>
    mapPlayers players = Inr ps \<longrightarrow> mapPlayers players' = Inr ps' \<longrightarrow>
      LeagueScoreboard players = Inr (JObj [(''players'', JArr ps)]) \<and>
      LeagueScoreboard players' = Inr (JObj [(''players'', JArr ps')]) \<and>
      changed (JObj [(''players'', JArr ps)]) (JObj [(''players'', JArr ps')]) = (ps \<noteq> ps'))"
proof -
  have "changed (JObj [(''players'', JArr ps)]) (JObj [(''players'', JArr ps')]) = (ps \<noteq> ps')"
    if "json_values players" "json_values players'"
      "mapPlayers players = Inr ps" "mapPlayers players' = Inr ps'"
    using json_mapPlayers [OF that(1,3)] json_mapPlayers [OF that(2,4)]
      changed_json [of "JObj [(''players'', JArr ps)]" "JObj [(''players'', JArr ps')]"]
    by simp
  then show ?thesis
    by (simp add: changed_json LeagueScoreboard_def) (simp add: changed_def)
qed

lemma mapLeaguePlayer_with_items:
  "mapLeaguePlayer (with_items its) = Inr (JObj
     [(''name'', JStr ''Faker''), (''champion'', JStr ''''), (''team'', JStr ''ORDER''),
      (''level'', JNull),
      (''stats'', JObj [(''maxHealth'', JNull), (''attackDamage'', JNull), (''abilityPower'', JNull),
                        (''armor'', JNull), (''magicResist'', JNull)]),
      (''items'', JArr (map mapItem (filter truthy its)))])"
  by (simp add: with_items_def mapLeaguePlayer_def statsSource_def rawItems_def)

text \<open>
  One player whose two items are listed in either order: the two scoreboards are
  reported as changed against each other.
\<close>

theorem differ_compares_serialisations_witness:
  "json_values [with_items [boots, sword]] \<and> json_values [with_items [sword, boots]] \<and>
   LeagueScoreboard [with_items [boots, sword]] = Inr (JObj [(''players'', JArr [JObj
     [(''name'', JStr ''Faker''), (''champion'', JStr ''''), (''team'', JStr ''ORDER''),
      (''level'', JNull),
      (''stats'', JObj [(''maxHealth'', JNull), (''attackDamage'', JNull), (''abilityPower'', JNull),
                        (''armor'', JNull), (''magicResist'', JNull)]),
      (''items'', JArr [mapItem boots, mapItem sword])]])]) \<and>
   LeagueScoreboard [with_items [sword, boots]] = Inr (JObj [(''players'', JArr [JObj
     [(''name'', JStr ''Faker''), (''champion'', JStr ''''), (''team'', JStr ''ORDER''),
      (''level'', JNull),
      (''stats'', JObj [(''maxHealth'', JNull), (''attackDamage'', JNull), (''abilityPower'', JNull),
                        (''armor'', JNull), (''magicResist'', JNull)]),
      (''items'', JArr [mapItem sword, mapItem boots])]])]) \<and>
   changed
     (JObj [(''players'', JArr [JObj
       [(''name'', JStr ''Faker''), (''champion'', JStr ''''), (''team'', JStr ''ORDER''),
        (''level'', JNull),
        (''stats'', JObj [(''maxHealth'', JNull), (''attackDamage'', JNull), (''abilityPower'', JNull),
                          (''armor'', JNull), (''magicResist'', JNull)]),
        (''items'', JArr [mapItem boots, mapItem sword])]])])
     (JObj [(''players'', JArr [JObj
       [(''name'', JStr ''Faker''), (''champion'', JStr ''''), (''team'', JStr ''ORDER''),
        (''level'', JNull),
        (''stats'', JObj [(''maxHealth'', JNull), (''attackDamage'', JNull), (''abilityPower'', JNull),
                          (''armor'', JNull), (''magicResist'', JNull)]),
        (''items'', JArr [mapItem sword, mapItem boots])]])])"
proof -
  have j: "json_values [with_items [boots, sword]]" "json_values [with_items [sword, boots]]"
    by (simp_all add: with_items_def boots_def sword_def)
  have t: "truthy boots" "truthy sword" by (simp_all add: boots_def sword_def)
  have m: "mapPlayers [with_items [boots, sword]] = Inr [JObj
     [(''name'', JStr ''Faker''), (''champion'', JStr ''''), (''team'', JStr ''ORDER''),
      (''level'', JNull),
      (''stats'', JObj [(''maxHealth'', JNull), (''attackDamage'', JNull), (''abilityPower'', JNull),
                        (''armor'', JNull), (''magicResist'', JNull)]),
      (''items'', JArr [mapItem boots, mapItem sword])]]"
    "mapPlayers [with_items [sword, boots]] = Inr [JObj
     [(''name'', JStr ''Faker''), (''champion'', JStr ''''), (''team'', JStr ''ORDER''),
      (''level'', JNull),
      (''stats'', JObj [(''maxHealth'', JNull), (''attackDamage'', JNull), (''abilityPower'', JNull),
                        (''armor'', JNull), (''magicResist'', JNull)]),
      (''items'', JArr [mapItem sword, mapItem boots])]]"
    by (simp_all add: mapLeaguePlayer_with_items t)
  have d: "mapItem boots \<noteq> mapItem sword"
    by (simp add: boots_def sword_def mapItem_def)
  from differ_compares_serialisations [of JNull JNull "[with_items [boots, sword]]"
      "[with_items [sword, boots]]", THEN conjunct2, THEN conjunct2, rule_format, OF j m] j d
  show ?thesis by simp
qed

section \<open>Updates of the snapshot\<close>

lemma startLeaguePolling_frame [simp]:
  "latestScoreboard (startLeaguePolling force st) = latestScoreboard st"
  "emitted (startLeaguePolling force st) = emitted st"
  "lastScoreboardErrorTs (startLeaguePolling force st) = lastScoreboardErrorTs st"
  "activeGame (startLeaguePolling force st) = activeGame st"
  by (simp_all add: startLeaguePolling_def pollLeague_def Let_def)

lemma toString_player_throws: "LeagueScoreboard [toString_player] = Inl cannot_convert"
  by (simp add: LeagueScoreboard_def toString_player_def mapLeaguePlayer_def normalizeStat_toString)


lemma truthy_update_with [simp]: "truthy (update_with players)"
  by (simp add: update_with_def)

lemma LeagueScoreboard_faker:
  "LeagueScoreboard [faker] = Inr (JObj [(''players'', JArr [JObj canonical_faker])])"
  by (simp add: LeagueScoreboard_def mapLeaguePlayer_faker canonical_faker_def)




section \<open>Failures of a poll cycle\<close>

lemma named_append [simp]: "named n (xs @ ys) = named n xs @ named n ys"
  by (simp add: named_def)

lemma named_Cons: "named n (e # es) = (if fst e = n then e # named n es else named n es)"
  by (simp add: named_def)

lemma named_Nil [simp]: "named n [] = []"
  by (simp add: named_def)

lemma settled_failure:
  "is_failure outcome \<Longrightarrow> pollLeague_settled outcome now st = pollLeague_catch (thrown outcome) now st"
  by (cases outcome)
     (auto simp add: is_failure_def pollLeague_settled_def thrown_def split: sum.splits)

lemma catch_emitted:
  "emitted (pollLeague_catch error now st) =
     emitted st @
       (''log'', [JStr ''league-live-client-error'', orElse (getp error ''message'') error]) #
       (if now - lastScoreboardErrorTs st > 5000
        then [(''scoreboard-error'',
               [JObj [(''gameId'', gameIdVal LeagueofLegends),
                      (''error'', orElse (orElse (getp error ''message'') error)
                                         (JStr ''league-live-client-error''))]])]
        else [])"
  by (simp add: pollLeague_catch_def Let_def emit_def)

lemma catch_ts:
  "lastScoreboardErrorTs (pollLeague_catch error now st) =
     (if now - lastScoreboardErrorTs st > 5000 then now else lastScoreboardErrorTs st)"
  by (simp add: pollLeague_catch_def Let_def emit_def)

lemma catch_frame [simp]:
  "latestScoreboard (pollLeague_catch error now st) = latestScoreboard st"
  "leaguePollingTimer (pollLeague_catch error now st) = leaguePollingTimer st"
  "intervals (pollLeague_catch error now st) = intervals st"
  "activeGame (pollLeague_catch error now st) = activeGame st"
  by (simp_all add: pollLeague_catch_def Let_def emit_def)

lemma catch_errors:
  "length (named ''scoreboard-error'' (emitted (pollLeague_catch error now st))) =
     length (named ''scoreboard-error'' (emitted st)) +
       (if now - lastScoreboardErrorTs st > 5000 then 1 else 0)"
  by (simp add: catch_emitted named_Cons)

text \<open>
  A failure at clock value 10000 emits the error event and stores 10000. A second
  failure at 15000, when 5000 ms have elapsed, emits none.
\<close>

theorem error_at_5000_counterexample:
  "lastScoreboardErrorTs (pollLeague_settled (Rejected (Error ''refused'')) 10000 initial) = 10000 \<and>
   length (named ''scoreboard-error''
     (emitted (pollLeague_settled (Rejected (Error ''refused'')) 10000 initial))) = 1 \<and>
   (15000::int) - 10000 \<ge> 5000 \<and>
   length (named ''scoreboard-error''
     (emitted (pollLeague_settled (Rejected (Error ''refused'')) 15000
        (pollLeague_settled (Rejected (Error ''refused'')) 10000 initial)))) = 1"
proof -
  have f: "is_failure (Rejected (Error ''refused''))" by (simp add: is_failure_def)
  have i: "lastScoreboardErrorTs initial = 0" "emitted initial = []" by (simp_all add: initial_def)
  show ?thesis
    by (simp add: settled_failure [OF f] catch_errors catch_ts i)
qed

text \<open>
  Claim C3, as amended. A poll cycle that fails (the request is rejected, it resolves
  with a value that is not an array, or the normalizer throws) emits one log event, and
  after it one \<^verbatim>\<open>scoreboard-error\<close> event if and only if more than 5000 ms lie between
  the clock and the stored error timestamp; the timestamp becomes the clock value when
  the event is emitted and is unchanged otherwise. So of three failures in a row, the
  first more than 5000 ms after the stored timestamp, the second at most 5000 ms after
  the first and the third more than 5000 ms after the first, the first and the third
  emit the error event and the second does not.
\<close>

theorem failure_logged_error_throttled:
  "(is_failure outcome \<longrightarrow>
      emitted (pollLeague_settled outcome now st) =
        emitted st @
          (''log'', [JStr ''league-live-client-error'',
                     orElse (getp (thrown outcome) ''message'') (thrown outcome)]) #
          (if now - lastScoreboardErrorTs st > 5000
           then [(''scoreboard-error'',
                  [JObj [(''gameId'', gameIdVal LeagueofLegends),
                         (''error'', orElse (orElse (getp (thrown outcome) ''message'') (thrown outcome))
                                            (JStr ''league-live-client-error''))]])]
           else []) \<and>
      lastScoreboardErrorTs (pollLeague_settled outcome now st) =
        (if now - lastScoreboardErrorTs st > 5000 then now else lastScoreboardErrorTs st)) \<and>
   (is_failure o1 \<and> is_failure o2 \<and> is_failure o3 \<and>
    t1 - lastScoreboardErrorTs st > 5000 \<and> t2 - t1 \<le> 5000 \<and> t3 - t1 > 5000 \<longrightarrow>
      length (named ''scoreboard-error''
        (emitted (pollLeague_settled o2 t2 (pollLeague_settled o1 t1 st)))) =
        length (named ''scoreboard-error'' (emitted st)) + 1 \<and>
      length (named ''scoreboard-error''
        (emitted (pollLeague_settled o3 t3 (pollLeague_settled o2 t2 (pollLeague_settled o1 t1 st))))) =
        length (named ''scoreboard-error'' (emitted st)) + 2)"
proof -
  have "is_failure o1 \<and> is_failure o2 \<and> is_failure o3 \<and>
    t1 - lastScoreboardErrorTs st > 5000 \<and> t2 - t1 \<le> 5000 \<and> t3 - t1 > 5000 \<longrightarrow>
      length (named ''scoreboard-error''
        (emitted (pollLeague_settled o2 t2 (pollLeague_settled o1 t1 st)))) =
        length (named ''scoreboard-error'' (emitted st)) + 1 \<and>
      length (named ''scoreboard-error''
        (emitted (pollLeague_settled o3 t3 (pollLeague_settled o2 t2 (pollLeague_settled o1 t1 st))))) =
        length (named ''scoreboard-error'' (emitted st)) + 2"
    by (simp add: settled_failure catch_errors catch_ts)
  then show ?thesis
    by (simp add: settled_failure catch_emitted catch_ts)
qed

lemma http_500_rejected:
  "handleLiveClientResponse (Some 500) (Inr (JArr [])) = Rejected (Error ''live client http 500'')"
proof -
  have "show_nat 500 = ''500''"
    by code_simp
  then show ?thesis
    by (simp add: handleLiveClientResponse_def)
qed

text \<open>
  The endpoint answers with status 500 at clock value 10000: one log event and one error
  event. A refused connection 5000 ms later: no error event. A response whose
  normalization throws, a millisecond after that: the second error event.
\<close>

theorem failure_logged_error_throttled_witness:
  "is_failure (handleLiveClientResponse (Some 500) (Inr (JArr []))) \<and>
   is_failure (Rejected (Error ''refused'')) \<and>
   is_failure (Resolved (JArr [toString_player])) \<and>
   (10000::int) - lastScoreboardErrorTs initial > 5000 \<and> (15000::int) - 10000 \<le> 5000 \<and>
   (15001::int) - 10000 > 5000 \<and>
   emitted (pollLeague_settled (handleLiveClientResponse (Some 500) (Inr (JArr []))) 10000 initial) =
     [(''log'', [JStr ''league-live-client-error'', JStr ''live client http 500'']),
      (''scoreboard-error'', [JObj [(''gameId'', gameIdVal LeagueofLegends),
                                    (''error'', JStr ''live client http 500'')]])] \<and>
   length (named ''scoreboard-error''
     (emitted (pollLeague_settled (Rejected (Error ''refused'')) 15000
        (pollLeague_settled (handleLiveClientResponse (Some 500) (Inr (JArr []))) 10000 initial)))) = 1 \<and>
   length (named ''scoreboard-error''
     (emitted (pollLeague_settled (Resolved (JArr [toString_player])) 15001
        (pollLeague_settled (Rejected (Error ''refused'')) 15000
          (pollLeague_settled (handleLiveClientResponse (Some 500) (Inr (JArr []))) 10000 initial))))) = 2"
proof -
  have f: "is_failure (Rejected (Error ''refused''))"
    "is_failure (Rejected (Error ''live client http 500''))"
    "is_failure (Resolved (JArr [toString_player]))"
    by (simp_all add: is_failure_def toString_player_throws)
  have i: "lastScoreboardErrorTs initial = 0" "emitted initial = []" by (simp_all add: initial_def)
  have th: "thrown (Rejected (Error ''live client http 500'')) = Error ''live client http 500''"
    by (simp add: thrown_def)
  from failure_logged_error_throttled
    [of "Rejected (Error ''live client http 500'')" 10000 initial
        "Rejected (Error ''live client http 500'')" "Rejected (Error ''refused'')"
        "Resolved (JArr [toString_player])" 10000 15000 15001] f i th
  show ?thesis by (simp add: http_500_rejected Error_def)
qed

text \<open>
  Claim C4. \<^verbatim>\<open>startLeaguePolling\<close> changes nothing when a timer is already set; it
  changes nothing, and issues no request, when no timer is set, \<^verbatim>\<open>force\<close> is false and
  the active game is not League of Legends; with \<^verbatim>\<open>force\<close> true a timer is set
  afterwards in every case (a new one when none was set, with a request issued only if
  the active game is League of Legends).
\<close>

theorem start_gating:
  "(leaguePollingTimer st \<noteq> None \<longrightarrow> startLeaguePolling force st = st) \<and>
   (leaguePollingTimer st = None \<and> \<not> force \<and> activeGame st \<noteq> LeagueofLegends \<longrightarrow>
      startLeaguePolling force st = st \<and> requests (startLeaguePolling force st) = requests st) \<and>
   leaguePollingTimer (startLeaguePolling True st) \<noteq> None \<and>
   (leaguePollingTimer st = None \<longrightarrow>
      leaguePollingTimer (startLeaguePolling True st) = Some (next_timer st) \<and>
      intervals (startLeaguePolling True st) = intervals st @ [next_timer st] \<and>
      requests (startLeaguePolling True st) =
        requests st + (if activeGame st = LeagueofLegends then 1 else 0))"
  by (simp add: startLeaguePolling_def pollLeague_def Let_def)

theorem start_gating_witness:
  "leaguePollingTimer initial = None \<and> activeGame initial \<noteq> LeagueofLegends \<and>
   startLeaguePolling False initial = initial \<and>
   leaguePollingTimer (startLeaguePolling True initial) = Some 0 \<and>
   intervals (startLeaguePolling True initial) = [0] \<and>
   requests (startLeaguePolling True initial) = 0 \<and>
   leaguePollingTimer (startLeaguePolling True initial) \<noteq> None \<and>
   startLeaguePolling False (startLeaguePolling True initial) = startLeaguePolling True initial"
proof -
  have i: "leaguePollingTimer initial = None" "activeGame initial \<noteq> LeagueofLegends"
    "next_timer initial = 0" "intervals initial = []" "requests initial = 0"
    by (simp_all add: initial_def LeagueofLegends_def)
  from start_gating [of initial False] start_gating [of "startLeaguePolling True initial" False] i
  show ?thesis by simp
qed

section \<open>At most one timer\<close>

lemma poller_inv_frame:
  "intervals st' = intervals st \<Longrightarrow> leaguePollingTimer st' = leaguePollingTimer st \<Longrightarrow>
   poller_inv st' = poller_inv st"
  by (simp add: poller_inv_def)

lemma poller_inv_update [simp]:
  "poller_inv (st\<lparr>activeGame := g\<rparr>) = poller_inv st"
  "poller_inv (st\<lparr>host_calls := hc\<rparr>) = poller_inv st"
  "poller_inv (st\<lparr>latestScoreboard := sb\<rparr>) = poller_inv st"
  "poller_inv (st\<lparr>settled := n\<rparr>) = poller_inv st"
  "poller_inv (st\<lparr>lastScoreboardErrorTs := t\<rparr>) = poller_inv st"
  "poller_inv (st\<lparr>requests := r\<rparr>) = poller_inv st"
  "poller_inv (emit name args st) = poller_inv st"
  by (simp_all add: poller_inv_def emit_def)

lemma poller_inv_pollLeague [simp]: "poller_inv (pollLeague st) = poller_inv st"
  by (simp add: pollLeague_def)

lemma poller_inv_catch [simp]: "poller_inv (pollLeague_catch error now st) = poller_inv st"
  by (rule poller_inv_frame) simp_all

lemma poller_inv_settled [simp]: "poller_inv (pollLeague_settled outcome now st) = poller_inv st"
  by (simp add: pollLeague_settled_def Let_def split: fetch_outcome.split sum.split)

lemma poller_inv_start: "poller_inv st \<Longrightarrow> poller_inv (startLeaguePolling force st)"
  by (auto simp add: poller_inv_def startLeaguePolling_def pollLeague_def Let_def)

lemma poller_inv_stop: "poller_inv st \<Longrightarrow> poller_inv (stopLeaguePolling st)"
  by (auto simp add: poller_inv_def stopLeaguePolling_def split: option.splits)

lemma poller_inv_info: "poller_inv st \<Longrightarrow> poller_inv (state_of (handleLeagueInfoUpdate info st))"
  by (simp add: handleLeagueInfoUpdate_def Let_def poller_inv_start split: sum.split)

lemma poller_inv_step: "poller_inv st \<Longrightarrow> poller_inv (step st i)"
proof (cases i)
  case (GameDetected gameId name gameInfo)
  assume "poller_inv st"
  then show ?thesis
    by (simp add: GameDetected on_game_detected_def Let_def poller_inv_start split: option.split)
next
  case (GameExit gameId)
  assume "poller_inv st"
  then show ?thesis
    by (simp add: GameExit on_game_exit_def Let_def poller_inv_stop)
next
  case (NewInfoUpdate gameId args)
  assume "poller_inv st"
  then show ?thesis
    by (simp add: NewInfoUpdate on_new_info_update_def Let_def poller_inv_info)
next
  case (GepError gameId error args)
  assume "poller_inv st"
  then show ?thesis
    by (simp add: GepError on_error_def Let_def poller_inv_start)
qed (simp_all add: on_elevated_privileges_required_def on_new_game_event_def)

lemma poller_inv_run: "poller_inv st \<Longrightarrow> poller_inv (run st ins)"
  unfolding run_def by (induction ins arbitrary: st) (simp_all add: poller_inv_step)

lemma poller_inv_initial: "poller_inv initial"
  by (simp add: poller_inv_def initial_def)

lemma poller_inv_registerGames: "poller_inv (registerGames ids initial)"
  by (simp add: poller_inv_def registerGames_def emit_def initial_def)

lemma poller_inv_length: "poller_inv st \<Longrightarrow> length (intervals st) \<le> 1"
  by (simp add: poller_inv_def split: option.splits)

lemma stop_idem: "stopLeaguePolling (stopLeaguePolling st) = stopLeaguePolling st"
  by (simp add: stopLeaguePolling_def split: option.splits)

text \<open>
  Two non-forced starts while no tracked game is active leave no timer at all.
\<close>

theorem start_twice_counterexample:
  "leaguePollingTimer (startLeaguePolling False (startLeaguePolling False initial)) = None \<and>
   intervals (startLeaguePolling False (startLeaguePolling False initial)) = []"
  by (simp add: startLeaguePolling_def initial_def LeagueofLegends_def)

text \<open>
  Claim C9, as amended. In a state where the active interval timers are exactly the one
  stored in \<^verbatim>\<open>leaguePollingTimer\<close> (if any), two calls of \<^verbatim>\<open>startLeaguePolling\<close> with
  any force flags leave at most one active timer: exactly one if a timer was set
  before, a call is forced or the active game is League of Legends, and none otherwise.
  \<^verbatim>\<open>stopLeaguePolling\<close> is idempotent and leaves no timer. Every state the service
  reaches from its initial state, with any list of games registered and after any
  sequence of callbacks, has at most one active timer.
\<close>

theorem at_most_one_timer:
  "(poller_inv st \<longrightarrow>
      poller_inv (startLeaguePolling f2 (startLeaguePolling f1 st)) \<and>
      length (intervals (startLeaguePolling f2 (startLeaguePolling f1 st))) \<le> 1 \<and>
      (length (intervals (startLeaguePolling f2 (startLeaguePolling f1 st))) = 1) =
        (leaguePollingTimer st \<noteq> None \<or> f1 \<or> f2 \<or> activeGame st = LeagueofLegends) \<and>
      intervals (stopLeaguePolling st) = []) \<and>
   stopLeaguePolling (stopLeaguePolling st) = stopLeaguePolling st \<and>
   leaguePollingTimer (stopLeaguePolling st) = None \<and>
   poller_inv (run (registerGames ids initial) ins) \<and>
   length (intervals (run (registerGames ids initial) ins)) \<le> 1"
proof -
  have a: "poller_inv st \<longrightarrow>
      (length (intervals (startLeaguePolling f2 (startLeaguePolling f1 st))) = 1) =
        (leaguePollingTimer st \<noteq> None \<or> f1 \<or> f2 \<or> activeGame st = LeagueofLegends)"
    by (auto simp add: poller_inv_def startLeaguePolling_def pollLeague_def Let_def)
  have b: "poller_inv st \<longrightarrow> intervals (stopLeaguePolling st) = []"
    by (auto simp add: poller_inv_def stopLeaguePolling_def split: option.splits)
  have c: "leaguePollingTimer (stopLeaguePolling st) = None"
    by (simp add: stopLeaguePolling_def split: option.splits)
  have d: "poller_inv (run (registerGames ids initial) ins)"
    by (rule poller_inv_run) (rule poller_inv_registerGames)
  have e: "poller_inv st \<longrightarrow>
      poller_inv (startLeaguePolling f2 (startLeaguePolling f1 st)) \<and>
      length (intervals (startLeaguePolling f2 (startLeaguePolling f1 st))) \<le> 1"
    using poller_inv_length [of "startLeaguePolling f2 (startLeaguePolling f1 st)"]
      poller_inv_start [of st f1] poller_inv_start [of "startLeaguePolling f1 st" f2]
    by blast
  have f: "length (intervals (run (registerGames ids initial) ins)) \<le> 1"
    using d by (rule poller_inv_length)
  from a b c d e f show ?thesis
    using stop_idem [of st] by blast
qed

theorem at_most_one_timer_witness:
  "poller_inv initial \<and>
   intervals (startLeaguePolling True (startLeaguePolling False initial)) = [0] \<and>
   intervals (startLeaguePolling False (startLeaguePolling True initial)) = [0] \<and>
   intervals (stopLeaguePolling (startLeaguePolling True initial)) = [] \<and>
   leaguePollingTimer (stopLeaguePolling (startLeaguePolling True initial)) = None \<and>
   length (intervals (run (registerGames [LeagueofLegends] initial)
     [GameDetected LeagueofLegends (JStr ''League of Legends'') (JObj []),
      GepError LeagueofLegends JNull []])) \<le> 1"
proof -
  have i: "poller_inv initial" by (simp add: poller_inv_def initial_def)
  have s: "startLeaguePolling False initial = initial"
    "intervals (startLeaguePolling True initial) = [0]"
    "leaguePollingTimer (startLeaguePolling True initial) = Some 0"
    by (simp_all add: startLeaguePolling_def pollLeague_def initial_def LeagueofLegends_def)
  from at_most_one_timer [of initial True False "[LeagueofLegends]"
      "[GameDetected LeagueofLegends (JStr ''League of Legends'') (JObj []),
        GepError LeagueofLegends JNull []]"]
    at_most_one_timer [of "startLeaguePolling True initial" False False "[]" "[]"] i s
  show ?thesis
    by (simp add: startLeaguePolling_def stopLeaguePolling_def)
qed

section \<open>The error timestamp\<close>

lemma stop_ts [simp]: "lastScoreboardErrorTs (stopLeaguePolling st) = lastScoreboardErrorTs st"
  by (simp add: stopLeaguePolling_def split: option.splits)

lemma emit_ts [simp]: "lastScoreboardErrorTs (emit name args st) = lastScoreboardErrorTs st"
  by (simp add: emit_def)

lemma info_ts [simp]:
  "lastScoreboardErrorTs (state_of (handleLeagueInfoUpdate info st)) = lastScoreboardErrorTs st"
  by (simp add: handleLeagueInfoUpdate_def Let_def split: sum.split)

lemma step_ts: "\<not> is_settle i \<Longrightarrow> lastScoreboardErrorTs (step st i) = lastScoreboardErrorTs st"
  by (cases i)
     (simp_all add: on_game_detected_def on_game_exit_def on_elevated_privileges_required_def
        on_new_info_update_def on_new_game_event_def on_error_def pollLeague_def Let_def
        split: option.split)

lemma run_ts: "\<not> list_ex is_settle ins \<Longrightarrow> lastScoreboardErrorTs (run st ins) = lastScoreboardErrorTs st"
  unfolding run_def by (induction ins arbitrary: st) (simp_all add: step_ts)

lemma settled_success_ts:
  "\<not> is_failure outcome \<Longrightarrow> lastScoreboardErrorTs (pollLeague_settled outcome now st) = 0"
  by (cases outcome)
     (auto simp add: is_failure_def pollLeague_settled_def Let_def split: sum.splits)

text \<open>
  Claim C10. A poll cycle that succeeds (it resolves with an array that the normalizer
  accepts) sets the stored error timestamp to 0. No other callback than a settling
  request changes it, so the next failure, at any clock value above 5000 (\<^verbatim>\<open>Date.now()\<close>
  counts milliseconds since 1970), emits the log event and a \<^verbatim>\<open>scoreboard-error\<close> event
  and stores its time, whatever the timestamp was before the success.
\<close>

theorem success_resets_error_timestamp:
  "\<not> is_failure o1 \<and> \<not> list_ex is_settle ins \<and> is_failure o2 \<and> 5000 < now2 \<longrightarrow>
     lastScoreboardErrorTs (pollLeague_settled o1 now1 st) = 0 \<and>
     emitted (pollLeague_settled o2 now2 (run (pollLeague_settled o1 now1 st) ins)) =
       emitted (run (pollLeague_settled o1 now1 st) ins) @
         [(''log'', [JStr ''league-live-client-error'',
                     orElse (getp (thrown o2) ''message'') (thrown o2)]),
          (''scoreboard-error'',
             [JObj [(''gameId'', gameIdVal LeagueofLegends),
                    (''error'', orElse (orElse (getp (thrown o2) ''message'') (thrown o2))
                                       (JStr ''league-live-client-error''))]])] \<and>
     lastScoreboardErrorTs (pollLeague_settled o2 now2 (run (pollLeague_settled o1 now1 st) ins)) = now2"
  by (simp add: settled_failure catch_emitted catch_ts run_ts settled_success_ts)

text \<open>
  An error event was emitted at 1000000. A poll succeeds 100 ms later, a timer fires,
  and a poll is refused 200 ms after the error event: it emits the error event again.
\<close>

theorem success_resets_error_timestamp_witness:
  "\<not> is_failure (Resolved (JArr [faker])) \<and> \<not> list_ex is_settle [IntervalFired 0] \<and>
   is_failure (Rejected (Error ''refused'')) \<and> (5000::int) < 1000200 \<and>
   (1000200::int) - 1000000 \<le> 5000 \<and>
   lastScoreboardErrorTs
     (pollLeague_settled (Resolved (JArr [faker])) 1000100 (initial\<lparr>lastScoreboardErrorTs := 1000000\<rparr>)) = 0 \<and>
   emitted (pollLeague_settled (Rejected (Error ''refused'')) 1000200
     (run (pollLeague_settled (Resolved (JArr [faker])) 1000100 (initial\<lparr>lastScoreboardErrorTs := 1000000\<rparr>))
          [IntervalFired 0])) =
     [(''scoreboard-update'', [JObj [(''players'', JArr [JObj canonical_faker])]]),
      (''log'', [JStr ''league-live-client-error'', JStr ''refused'']),
      (''scoreboard-error'', [JObj [(''gameId'', gameIdVal LeagueofLegends),
                                    (''error'', JStr ''refused'')]])]"
proof -
  have f: "\<not> is_failure (Resolved (JArr [faker]))" "is_failure (Rejected (Error ''refused''))"
    by (simp_all add: is_failure_def LeagueScoreboard_faker)
  have c: "changed (JObj [(''players'', JArr [JObj canonical_faker])]) JNull"
    by (simp add: changed_def JSON_stringify_def)
  have r: "emitted (run (pollLeague_settled (Resolved (JArr [faker])) 1000100
        (initial\<lparr>lastScoreboardErrorTs := 1000000\<rparr>)) [IntervalFired 0]) =
      [(''scoreboard-update'', [JObj [(''players'', JArr [JObj canonical_faker])]])]"
    using c
    by (simp add: run_def pollLeague_settled_def LeagueScoreboard_faker Let_def emit_def
        initial_def pollLeague_def)
  from success_resets_error_timestamp
    [of "Resolved (JArr [faker])" "[IntervalFired 0]" "Rejected (Error ''refused'')" 1000200 1000100
        "initial\<lparr>lastScoreboardErrorTs := 1000000\<rparr>"] f r
  show ?thesis by (simp add: thrown_def Error_def)
qed

end
